theory Spec2Isabelle
  imports
    Complex_Main
    "HOL-Library.Char_ord"
    "HOL-Library.List_Lexorder"
    "HOL-Library.Log_Nat"
    "HOL-Library.Sublist"
begin

section \<open>The probe demo application (app/main.py)\<close>

text \<open>
  The model follows \<^verbatim>\<open>app/main.py\<close> function by function.

  \<^item> A Python \<^verbatim>\<open>float\<close> is the real number it denotes. A handler takes the wall-clock
    reading it makes (\<^verbatim>\<open>time.time()\<close>) as its argument \<open>now\<close>. The difference of two
    clock readings is taken as exact, as it is for the doubles that \<^verbatim>\<open>time.time()\<close>
    returns (two readings of the same binade, as all between 2004 and 2038 are, differ
    by a double). Every other floating-point operation of the source rounds its exact
    result to the nearest double (\<open>fl\<close> below), and the conversion of an \<^verbatim>\<open>int\<close> to a
    \<^verbatim>\<open>float\<close> raises \<^verbatim>\<open>OverflowError\<close> where Python does.
  \<^item> The module-level variables are the fields of the record \<open>globals\<close>. A handler that
    declares \<^verbatim>\<open>global X\<close> returns the updated record next to its response; the other
    handlers cannot assign a module-level variable and return the response only.
  \<^item> A response is its status code and its page. A page keeps the values the source
    interpolates into its HTML template, in the template's order; the fixed markup is
    left out.
  \<^item> An exception is the \<open>Inl\<close> of a sum; the framework answers an exception that
    leaves a handler with status 500 (\<open>respond\<close>).
  \<^item> A \<open>char\<close> stands for one character of a Python string. The names and values of
    environment variables, which the source upper-cases, sorts and cuts, are lists of
    Unicode code points (\<open>unicode\<close>).
\<close>

subsection \<open>Module-level state\<close>

record globals =
  K8S_AVAILABLE :: bool
  APP_START_TIME :: real
  READY :: bool
  HEALTHY :: bool
  STARTUP_DELAY :: int
  POD_NAME :: string
  NAMESPACE :: string
  NODE_NAME :: string
  APP_VERSION :: string
  HEADLESS_SVC :: string
  SERVICE_NAME :: string

text \<open>
  The state right after the module has been imported at time \<open>t\<close>: \<^verbatim>\<open>READY = False\<close>,
  \<^verbatim>\<open>HEALTHY = True\<close>, \<^verbatim>\<open>APP_START_TIME = time.time()\<close>. The startup delay is given; the
  other fields have the defaults of their \<^verbatim>\<open>os.getenv\<close> calls, and the Kubernetes client
  is not configured.
\<close>

definition fresh_instance :: "real \<Rightarrow> int \<Rightarrow> globals" where
  "fresh_instance t delay =
     \<lparr> K8S_AVAILABLE = False, APP_START_TIME = t, READY = False, HEALTHY = True,
       STARTUP_DELAY = delay, POD_NAME = ''unknown-pod'', NAMESPACE = ''default'',
       NODE_NAME = ''unknown-node'', APP_VERSION = ''1.0.0'',
       HEADLESS_SVC = ''demo-headless'', SERVICE_NAME = ''demo-service'' \<rparr>"

subsection \<open>Exceptions\<close>

datatype exn =
    Gaierror | ApiException | TimeoutError | KeyError | OverflowError | Other_exception

subsection \<open>Floating-point numbers\<close>

text \<open>Rounding to the nearest integer, a tie going to the even one.\<close>

definition round_half_even :: "real \<Rightarrow> int" where
  "round_half_even x =
     (let f = \<lfloor>x\<rfloor>; d = x - of_int f
      in if d < 1 / 2 then f
         else if 1 / 2 < d then f + 1
         else if even f then f else f + 1)"

text \<open>
  The binary exponent \<open>e\<close> of a positive number \<open>a\<close>, the one with
  \<open>2 powi e \<le> a < 2 powi (e + 1)\<close> (lemma \<open>binade_bounds\<close>), computed from the bit length
  of the integer part of \<open>a\<close>, or of \<open>1 / a\<close> when \<open>a < 1\<close>.
\<close>

definition binade :: "real \<Rightarrow> int" where
  "binade a =
     (if 1 \<le> a then bitlen \<lfloor>a\<rfloor> - 1
      else let b = bitlen \<lfloor>1 / a\<rfloor>
           in if a * 2 ^ nat (b - 1) = 1 then 1 - b else - b)"

text \<open>
  The double nearest to a real number, a tie going to the even significand: a
  significand of 53 bits, and a spacing of \<open>2 powi (- 1074)\<close> below \<open>2 powi (- 1022)\<close>.
  Doubles are not bounded above here. At clock readings smaller than \<open>2 ^ 969\<close> in
  magnitude the one operation of the source that leaves their range is the conversion
  of an \<^verbatim>\<open>int\<close>, which is \<open>float_of_int\<close>: a difference of a double and such an elapsed
  time is smaller in magnitude than \<open>2 ^ 1024 - 2 ^ 970\<close>, and rounds to a double.
\<close>

definition fl :: "real \<Rightarrow> real" where
  "fl x =
     (if x = 0 then 0
      else let q = max (binade \<bar>x\<bar>) (- 1022) - 52
           in of_int (round_half_even (x / 2 powi q)) * 2 powi q)"

text \<open>
  An \<^verbatim>\<open>int\<close> as an operand of a float operation: the nearest double, or
  \<^verbatim>\<open>OverflowError\<close> ("int too large to convert to float") when that is \<open>2 ^ 1024\<close> or
  more in magnitude.
\<close>

definition float_of_int :: "int \<Rightarrow> exn + real" where
  "float_of_int n =
     (let d = fl (of_int n) in if 2 ^ 1024 \<le> \<bar>d\<bar> then Inl OverflowError else Inr d)"

text \<open>
  \<^verbatim>\<open>round(x, n)\<close> on a float: \<open>x\<close> is rounded to the nearest decimal of \<open>n\<close> places, a
  tie going to the even one, and the result is the double nearest to that decimal.
\<close>

definition py_round :: "real \<Rightarrow> nat \<Rightarrow> real" where
  "py_round x n = fl (of_int (round_half_even (x * 10 ^ n)) / 10 ^ n)"

subsection \<open>Peer records\<close>

record peer =
  name :: string
  ip :: string
  node :: string
  phase :: "string option"
  ready :: bool
  restarts :: int
  is_self :: bool

subsection \<open>Responses\<close>

text \<open>A Python \<^verbatim>\<open>str\<close> as the list of its code points, and the \<^verbatim>\<open>str\<close> of an ASCII literal.\<close>

type_synonym unicode = "nat list"

definition str :: "string \<Rightarrow> unicode" where
  "str s = map of_char s"

datatype env_row =
    Masked_row unicode
  | Value_row unicode unicode

datatype peer_html =
    Peer_discovery_unavailable
  | Peer_pods_table "peer list" nat string

datatype page =
    Unhealthy_page string
  | Liveness_page string real string
  | Not_ready_yet_page real string
  | Readiness_page string int string
  | Starting_up_page real
  | Startup_page
  | Index_page string string string string real string string peer_html
  | Info_page string string string string string real bool bool string string
      peer_html "env_row list"
  | Health_toggled_page string string string bool string
  | Readiness_toggled_page string string string bool string
  | Internal_server_error

record response =
  status_code :: nat
  content :: page

text \<open>\<^verbatim>\<open>HTMLResponse(content=...)\<close> has status code 200 unless one is given.\<close>

definition HTMLResponse :: "page \<Rightarrow> response" where
  "HTMLResponse c = \<lparr> status_code = 200, content = c \<rparr>"

text \<open>The framework answers an exception that leaves a handler with status 500.\<close>

definition respond :: "exn + response \<Rightarrow> response" where
  "respond r =
     (case r of
        Inl e \<Rightarrow> \<lparr> status_code = 500, content = Internal_server_error \<rparr>
      | Inr resp \<Rightarrow> resp)"

subsection \<open>Probe endpoints\<close>

definition liveness :: "globals \<Rightarrow> real \<Rightarrow> response" where
  "liveness g now =
     (if \<not> HEALTHY g
      then \<lparr> status_code = 503, content = Unhealthy_page (POD_NAME g) \<rparr>
      else let uptime = py_round (now - APP_START_TIME g) 1
           in HTMLResponse (Liveness_page (POD_NAME g) uptime (NAMESPACE g)))"

text \<open>
  Before the delay has elapsed the handler computes
  \<^verbatim>\<open>round(STARTUP_DELAY - elapsed, 1)\<close>: the \<^verbatim>\<open>int\<close> is converted to a float, which may
  raise, the difference is rounded to a double, and that is rounded to one decimal. The
  comparison \<^verbatim>\<open>elapsed < STARTUP_DELAY\<close> of a float with an \<^verbatim>\<open>int\<close> is exact in Python and
  converts nothing.
\<close>

definition readiness :: "globals \<Rightarrow> real \<Rightarrow> response \<times> globals" where
  "readiness g now =
     (let elapsed = now - APP_START_TIME g
      in if elapsed < of_int (STARTUP_DELAY g)
         then (case float_of_int (STARTUP_DELAY g) of
                 Inl e \<Rightarrow> (respond (Inl e), g)
               | Inr delay \<Rightarrow>
                   let remaining = py_round (fl (delay - elapsed)) 1
                   in (\<lparr> status_code = 503,
                          content = Not_ready_yet_page remaining (POD_NAME g) \<rparr>, g))
         else let g' = g\<lparr> READY := True \<rparr>
              in (HTMLResponse
                    (Readiness_page (POD_NAME g') (STARTUP_DELAY g') (NAMESPACE g')), g'))"

definition startup :: "globals \<Rightarrow> real \<Rightarrow> response" where
  "startup g now =
     (let elapsed = now - APP_START_TIME g
      in if elapsed < 2
         then \<lparr> status_code = 503,
                content = Starting_up_page (py_round (fl (2 - elapsed)) 1) \<rparr>
         else HTMLResponse Startup_page)"

subsection \<open>Toggle endpoints\<close>

definition toggle_health :: "globals \<Rightarrow> response \<times> globals" where
  "toggle_health g =
     (let g' = g\<lparr> HEALTHY := \<not> HEALTHY g \<rparr>;
          status = (if HEALTHY g' then ''HEALTHY'' else ''UNHEALTHY'');
          css_class = (if HEALTHY g' then ''ok'' else ''fail'')
      in (HTMLResponse
            (Health_toggled_page css_class status (POD_NAME g') (\<not> HEALTHY g') (NAMESPACE g')),
          g'))"

definition toggle_ready :: "globals \<Rightarrow> response \<times> globals" where
  "toggle_ready g =
     (let g' = g\<lparr> READY := \<not> READY g \<rparr>;
          status = (if READY g' then ''READY'' else ''NOT READY'');
          css_class = (if READY g' then ''ok'' else ''fail'')
      in (HTMLResponse
            (Readiness_toggled_page css_class status (POD_NAME g') (\<not> READY g') (NAMESPACE g')),
          g'))"

subsection \<open>The outside world of one request\<close>

text \<open>The fields of a \<^verbatim>\<open>V1Pod\<close> that the application reads.\<close>

record pod_condition =
  cond_type :: string
  cond_status :: string

record container_status =
  restart_count :: int

record pod =
  metadata_name :: string
  spec_node_name :: "string option"
  status_pod_ip :: "string option"
  status_phase :: "string option"
  status_conditions :: "pod_condition list option"
  status_container_statuses :: "container_status list option"

text \<open>
  An entry of \<^verbatim>\<open>socket.getaddrinfo\<close>:
  \<^verbatim>\<open>(family, type, proto, canonname, (address, port))\<close>.
\<close>

type_synonym addrinfo = "int \<times> int \<times> int \<times> string \<times> (string \<times> int)"

text \<open>
  What the calls that leave the process answer during one request. The expression
  \<^verbatim>\<open>socket.gethostbyname(socket.gethostname())\<close> occurs in three places, each with an
  outcome of its own: \<open>k8s_my_ip\<close> in \<^verbatim>\<open>_discover_via_k8s_api\<close>, \<open>dns_my_ip\<close> in
  \<^verbatim>\<open>_discover_via_dns\<close>, \<open>page_my_ip\<close> in the page templates. \<open>fetch_in_time\<close> tells
  whether the worker thread delivers within the 3 seconds of \<^verbatim>\<open>asyncio.wait_for\<close>.

  \<open>str_upper\<close> is \<^verbatim>\<open>str.upper()\<close>. Its case mapping is a table of the Python runtime, not
  of the source, and covers all of Unicode (\<^verbatim>\<open>'pa\<close>\<ss>\<^verbatim>\<open>word'.upper()\<close> is
  \<^verbatim>\<open>'PASSWORD'\<close>); the model takes the function as it is given and assumes of it, where
  a statement needs that, only what it does on ASCII text (\<open>ascii_upper\<close> below).
\<close>

record world =
  list_namespaced_pod :: "string \<Rightarrow> string \<Rightarrow> exn + pod list"
  k8s_my_ip :: "exn + string"
  dns_my_ip :: "exn + string"
  getaddrinfo :: "string \<Rightarrow> exn + addrinfo list"
  fetch_in_time :: bool
  gethostname :: "exn + string"
  page_my_ip :: "exn + string"
  environ :: "(unicode \<times> unicode) list"
  utcnow_isoformat :: string
  str_upper :: "unicode \<Rightarrow> unicode"

subsection \<open>Peer discovery\<close>

text \<open>
  The placeholder of the source for a node that is not known, the one-character string
  of an em dash (U+2014); it lies outside the characters of the model and is written as
  its UTF-8 bytes.
\<close>

definition em_dash :: string where
  "em_dash = [char_of (0xE2 :: nat), char_of (0x80 :: nat), char_of (0x94 :: nat)]"

definition dns_peer :: "string \<Rightarrow> string \<Rightarrow> peer" where
  "dns_peer my_ip a =
     \<lparr> name = a, ip = a, node = em_dash, phase = Some ''Running'', ready = True,
       restarts = 0, is_self = (a = my_ip) \<rparr>"

fun dns_loop :: "string \<Rightarrow> addrinfo list \<Rightarrow> string set \<Rightarrow> peer list \<Rightarrow> peer list" where
  "dns_loop my_ip [] seen peers = peers"
| "dns_loop my_ip ((_, _, _, _, (a, _)) # results) seen peers =
     (if a \<in> seen then dns_loop my_ip results seen peers
      else dns_loop my_ip results (insert a seen) (peers @ [dns_peer my_ip a]))"

definition discover_via_dns :: "globals \<Rightarrow> world \<Rightarrow> exn + peer list" where
  "discover_via_dns g w =
     (let dns_name = HEADLESS_SVC g @ ''.'' @ NAMESPACE g @ ''.svc.cluster.local''
      in case dns_my_ip w of
           Inl e \<Rightarrow> Inl e
         | Inr my_ip \<Rightarrow>
             (case getaddrinfo w dns_name of
                Inl e \<Rightarrow> (if e = Gaierror then Inr [] else Inl e)
              | Inr results \<Rightarrow> Inr (sort_key ip (dns_loop my_ip results {} []))))"

text \<open>\<^verbatim>\<open>x or d\<close> on an optional string: \<open>d\<close> when \<open>x\<close> is \<^verbatim>\<open>None\<close> or empty.\<close>

definition str_or :: "string option \<Rightarrow> string \<Rightarrow> string" where
  "str_or x d = (case x of None \<Rightarrow> d | Some s \<Rightarrow> if s = [] then d else s)"

definition list_or :: "'a list option \<Rightarrow> 'a list \<Rightarrow> 'a list" where
  "list_or x d = (case x of None \<Rightarrow> d | Some l \<Rightarrow> if l = [] then d else l)"

definition pod_ready :: "pod \<Rightarrow> bool" where
  "pod_ready p =
     (case status_conditions p of
        None \<Rightarrow> False
      | Some conds \<Rightarrow>
          if conds = [] then False
          else fold (\<lambda>cond r. if cond_type cond = ''Ready'' \<and> cond_status cond = ''True''
                               then True else r) conds False)"

definition k8s_peer :: "string \<Rightarrow> pod \<Rightarrow> peer" where
  "k8s_peer my_ip p =
     (let pod_ip = str_or (status_pod_ip p) ''pending''
      in \<lparr> name = metadata_name p,
           ip = pod_ip,
           node = str_or (spec_node_name p) ''unknown'',
           phase = status_phase p,
           ready = pod_ready p,
           restarts = sum_list (map restart_count (list_or (status_container_statuses p) [])),
           is_self = (pod_ip = my_ip) \<rparr>)"

definition discover_via_k8s_api :: "globals \<Rightarrow> world \<Rightarrow> peer list" where
  "discover_via_k8s_api g w =
     (if \<not> K8S_AVAILABLE g then []
      else case list_namespaced_pod w (NAMESPACE g) ''app=demo'' of
             Inl e \<Rightarrow> []
           | Inr pods \<Rightarrow>
               (case k8s_my_ip w of
                  Inl e \<Rightarrow> []
                | Inr my_ip \<Rightarrow> sort_key name (map (k8s_peer my_ip) pods)))"

definition fetch_peer_pods :: "globals \<Rightarrow> world \<Rightarrow> exn + peer list" where
  "fetch_peer_pods g w =
     (let peers = discover_via_k8s_api g w
      in if peers \<noteq> [] then Inr peers else discover_via_dns g w)"

text \<open>
  \<^verbatim>\<open>asyncio.wait_for(fut, timeout=3.0)\<close>: the result of the call, the exception it raised,
  or \<^verbatim>\<open>TimeoutError\<close> when it is not there in time.
\<close>

definition wait_for :: "bool \<Rightarrow> exn + 'a \<Rightarrow> exn + 'a" where
  "wait_for in_time r = (if in_time then r else Inl TimeoutError)"

definition get_peer_pods :: "globals \<Rightarrow> world \<Rightarrow> exn + peer list" where
  "get_peer_pods g w =
     (case wait_for (fetch_in_time w) (fetch_peer_pods g w) of
        Inl e \<Rightarrow> Inr []
      | Inr peers \<Rightarrow> Inr peers)"

definition render_peer_table :: "globals \<Rightarrow> peer list \<Rightarrow> peer_html" where
  "render_peer_table g peers =
     (if peers = [] then Peer_discovery_unavailable
      else Peer_pods_table peers (length peers) (NAMESPACE g))"

subsection \<open>Landing page and pod info\<close>

definition index :: "globals \<Rightarrow> world \<Rightarrow> real \<Rightarrow> exn + response" where
  "index g w now =
     (let uptime = py_round (now - APP_START_TIME g) 1
      in case get_peer_pods g w of
           Inl e \<Rightarrow> Inl e
         | Inr peers \<Rightarrow>
             (let peer_html = render_peer_table g peers
              in case gethostname w of
                   Inl e \<Rightarrow> Inl e
                 | Inr hostname \<Rightarrow>
                     (case page_my_ip w of
                        Inl e \<Rightarrow> Inl e
                      | Inr my_ip \<Rightarrow>
                          Inr (HTMLResponse
                                 (Index_page (POD_NAME g) (NODE_NAME g) (NAMESPACE g)
                                    (APP_VERSION g) uptime hostname my_ip peer_html)))))"

text \<open>
  \<^verbatim>\<open>any(s in key.upper() for s in ["SECRET", "PASSWORD", "TOKEN", "KEY"])\<close>, with the
  function \<open>upper\<close> for \<^verbatim>\<open>str.upper()\<close>; \<^verbatim>\<open>s in t\<close> on strings is \<^const>\<open>sublist\<close>.
\<close>

definition secret_like :: "(unicode \<Rightarrow> unicode) \<Rightarrow> unicode \<Rightarrow> bool" where
  "secret_like upper key =
     list_ex (\<lambda>s. sublist s (upper key))
       [str ''SECRET'', str ''PASSWORD'', str ''TOKEN'', str ''KEY'']"

text \<open>
  The loop over \<^verbatim>\<open>sorted(os.environ)\<close>. \<^verbatim>\<open>os.environ\<close> is the association list of its
  items, read as a dictionary by \<^const>\<open>map_of\<close>; \<^verbatim>\<open>os.environ[key]\<close> raises
  \<^verbatim>\<open>KeyError\<close> on a missing key.
\<close>

fun env_rows_loop ::
  "(unicode \<Rightarrow> unicode) \<Rightarrow> (unicode \<Rightarrow> unicode option) \<Rightarrow> unicode list \<Rightarrow> env_row list
     \<Rightarrow> exn + env_row list" where
  "env_rows_loop upper env [] env_rows = Inr env_rows"
| "env_rows_loop upper env (key # keys) env_rows =
     (if secret_like upper key
      then env_rows_loop upper env keys (env_rows @ [Masked_row key])
      else case env key of
             None \<Rightarrow> Inl KeyError
           | Some v \<Rightarrow>
               env_rows_loop upper env keys (env_rows @ [Value_row key (take 100 v)]))"

definition info_env_rows ::
  "(unicode \<Rightarrow> unicode) \<Rightarrow> (unicode \<times> unicode) list \<Rightarrow> exn + env_row list" where
  "info_env_rows upper items =
     env_rows_loop upper (map_of items) (sort (remdups (map fst items))) []"

definition info :: "globals \<Rightarrow> world \<Rightarrow> real \<Rightarrow> exn + response" where
  "info g w now =
     (let uptime = py_round (now - APP_START_TIME g) 1
      in case get_peer_pods g w of
           Inl e \<Rightarrow> Inl e
         | Inr peers \<Rightarrow>
             (let peer_html = render_peer_table g peers
              in case info_env_rows (str_upper w) (environ w) of
                   Inl e \<Rightarrow> Inl e
                 | Inr env_rows \<Rightarrow>
                     (case gethostname w of
                        Inl e \<Rightarrow> Inl e
                      | Inr hostname \<Rightarrow>
                          (case page_my_ip w of
                             Inl e \<Rightarrow> Inl e
                           | Inr my_ip \<Rightarrow>
                               Inr (HTMLResponse
                                      (Info_page (POD_NAME g) (NAMESPACE g) (NODE_NAME g)
                                         hostname my_ip uptime (HEALTHY g) (READY g)
                                         (APP_VERSION g) (utcnow_isoformat w)
                                         peer_html env_rows))))))"

subsection \<open>Serving requests\<close>

datatype request =
    Get_healthz
  | Get_ready
  | Get_startup
  | Get_index world
  | Get_info world
  | Get_toggle_health
  | Get_toggle_ready

fun handle :: "globals \<Rightarrow> real \<Rightarrow> request \<Rightarrow> response \<times> globals" where
  "handle g now Get_healthz = (liveness g now, g)"
| "handle g now Get_ready = readiness g now"
| "handle g now Get_startup = (startup g now, g)"
| "handle g now (Get_index w) = (respond (index g w now), g)"
| "handle g now (Get_info w) = (respond (info g w now), g)"
| "handle g now Get_toggle_health = toggle_health g"
| "handle g now Get_toggle_ready = toggle_ready g"

text \<open>
  A run of the process: the requests with the clock reading each one makes, served one
  after the other; the responses in order, and the final state.
\<close>

fun serve :: "globals \<Rightarrow> (real \<times> request) list \<Rightarrow> response list \<times> globals" where
  "serve g [] = ([], g)"
| "serve g ((now, r) # rs) =
     (let (resp, g') = handle g now r;
          (resps, g'') = serve g' rs
      in (resp # resps, g''))"

subsection \<open>Auxiliary functions and example inputs\<close>

text \<open>
  ASCII text, and what \<^verbatim>\<open>str.upper()\<close> does on it: the letters \<open>a\<close> to \<open>z\<close> (code points
  97 to 122) become \<open>A\<close> to \<open>Z\<close> (65 to 90), every other character is left as it is.
\<close>

definition ascii :: "unicode \<Rightarrow> bool" where
  "ascii s = list_all (\<lambda>c. c < 128) s"

definition ascii_upper_char :: "nat \<Rightarrow> nat" where
  "ascii_upper_char c = (if 97 \<le> c \<and> c \<le> 122 then c - 32 else c)"

definition ascii_upper :: "unicode \<Rightarrow> unicode" where
  "ascii_upper s = map ascii_upper_char s"

text \<open>A function that is \<^verbatim>\<open>str.upper()\<close> on ASCII text at least.\<close>

definition upper_on_ascii :: "(unicode \<Rightarrow> unicode) \<Rightarrow> bool" where
  "upper_on_ascii upper = (\<forall>s. ascii s \<longrightarrow> upper s = ascii_upper s)"

text \<open>
  A character that is the capital letter \<open>l\<close> or its small letter (in ASCII the small
  letter is 32 places after the capital).
\<close>

definition same_letter :: "nat \<Rightarrow> nat \<Rightarrow> bool" where
  "same_letter c l = (c = l \<or> c = l + 32)"

text \<open>
  The words of the specification: a name contains one of SECRET, PASSWORD, TOKEN, KEY,
  whatever the case of its letters.
\<close>

definition contains_secret_word :: "unicode \<Rightarrow> bool" where
  "contains_secret_word key =
     (\<exists>word \<in> {str ''SECRET'', str ''PASSWORD'', str ''TOKEN'', str ''KEY''}.
        \<exists>u. sublist u key \<and> list_all2 same_letter u word)"

text \<open>The address of an entry of \<^verbatim>\<open>getaddrinfo\<close>.\<close>

definition sockaddr_address :: "addrinfo \<Rightarrow> string" where
  "sockaddr_address r = (case r of (_, _, _, _, (a, _)) \<Rightarrow> a)"

text \<open>The addresses of a list that are not in \<open>seen\<close>, each at its first occurrence.\<close>

fun first_seen :: "string list \<Rightarrow> string set \<Rightarrow> string list" where
  "first_seen [] seen = []"
| "first_seen (a # as) seen =
     (if a \<in> seen then first_seen as seen else a # first_seen as (insert a seen))"

text \<open>An instance running in a cluster, with the Kubernetes client configured.\<close>

definition in_cluster :: globals where
  "in_cluster = (fresh_instance 0 5)\<lparr> K8S_AVAILABLE := True \<rparr>"

definition example_pods :: "pod list" where
  "example_pods =
     [\<lparr> metadata_name = ''pod-b'', spec_node_name = Some ''node-1'',
        status_pod_ip = Some ''10.0.0.2'', status_phase = Some ''Running'',
        status_conditions =
          Some [\<lparr> cond_type = ''Initialized'', cond_status = ''True'' \<rparr>,
                \<lparr> cond_type = ''Ready'', cond_status = ''True'' \<rparr>],
        status_container_statuses =
          Some [\<lparr> restart_count = 2 \<rparr>, \<lparr> restart_count = 1 \<rparr>] \<rparr>,
      \<lparr> metadata_name = ''pod-a'', spec_node_name = None,
        status_pod_ip = None, status_phase = Some ''Pending'',
        status_conditions = Some [\<lparr> cond_type = ''Ready'', cond_status = ''False'' \<rparr>],
        status_container_statuses = None \<rparr>]"

definition example_addresses :: "addrinfo list" where
  "example_addresses =
     [(2, 1, 6, [], (''10.0.0.5'', 8000)), (2, 1, 6, [], (''10.0.0.2'', 8000)),
      (2, 1, 6, [], (''10.0.0.2'', 8000))]"

text \<open>
  A world in which the API call answers \<open>api\<close>, the name resolution answers \<open>dns\<close>, the
  local address is 10.0.0.2 and the worker is in time or not.
\<close>

definition example_world :: "exn + pod list \<Rightarrow> exn + addrinfo list \<Rightarrow> bool \<Rightarrow> world" where
  "example_world api dns in_time =
     \<lparr> list_namespaced_pod = (\<lambda>namespace label_selector. api),
       k8s_my_ip = Inr ''10.0.0.2'',
       dns_my_ip = Inr ''10.0.0.2'',
       getaddrinfo = (\<lambda>dns_name. dns),
       fetch_in_time = in_time,
       gethostname = Inr ''pod-b'',
       page_my_ip = Inr ''10.0.0.2'',
       environ = [(str ''HOME'', str ''/root''), (str ''API_KEY'', str ''s3cr3t'')],
       utcnow_isoformat = ''2024-01-01T00:00:00+00:00'',
       str_upper = ascii_upper \<rparr>"

section \<open>Floating-point rounding\<close>

subsection \<open>Nearest integers and binary exponents\<close>

lemma round_half_even_of_int: "round_half_even (of_int m) = m"
  by (simp add: round_half_even_def)

lemma round_half_even_error: "\<bar>of_int (round_half_even y) - y\<bar> \<le> 1 / 2"
  unfolding round_half_even_def Let_def by (auto; linarith)

lemma binade_bounds:
  assumes "0 < a"
  shows "2 powi binade a \<le> a \<and> a < 2 powi (binade a + 1)"
proof (cases "1 \<le> a")
  case True
  then have p: "0 < \<lfloor>a\<rfloor>" by linarith
  let ?b = "bitlen \<lfloor>a\<rfloor>"
  from bitlen_bounds [OF p] have lo: "2 ^ nat (?b - 1) \<le> \<lfloor>a\<rfloor>" and hi: "\<lfloor>a\<rfloor> < 2 ^ nat ?b"
    by auto
  have b1: "1 \<le> ?b" using p by (simp add: bitlen_alt_def)
  have "(2::real) ^ nat (?b - 1) \<le> of_int \<lfloor>a\<rfloor>"
    using lo by (metis of_int_le_iff of_int_numeral of_int_power)
  then have l: "(2::real) ^ nat (?b - 1) \<le> a" by linarith
  have "\<lfloor>a\<rfloor> + 1 \<le> 2 ^ nat ?b" using hi by simp
  then have "of_int (\<lfloor>a\<rfloor> + 1) \<le> (2::real) ^ nat ?b"
    by (metis of_int_le_iff of_int_numeral of_int_power)
  then have h: "a < (2::real) ^ nat ?b" by linarith
  show ?thesis
    using True l h b1 by (simp add: binade_def power_int_def)
next
  case False
  with assms have a: "0 < a" "a < 1" by auto
  then have "1 < 1 / a" by simp
  then have p: "0 < \<lfloor>1 / a\<rfloor>" by linarith
  let ?b = "bitlen \<lfloor>1 / a\<rfloor>"
  from bitlen_bounds [OF p] have lo: "2 ^ nat (?b - 1) \<le> \<lfloor>1 / a\<rfloor>"
    and hi: "\<lfloor>1 / a\<rfloor> < 2 ^ nat ?b"
    by auto
  have b1: "1 \<le> ?b" using p by (simp add: bitlen_alt_def)
  have "(2::real) ^ nat (?b - 1) \<le> of_int \<lfloor>1 / a\<rfloor>"
    using lo by (metis of_int_le_iff of_int_numeral of_int_power)
  then have "(2::real) ^ nat (?b - 1) \<le> 1 / a" by linarith
  then have l: "a * 2 ^ nat (?b - 1) \<le> 1"
    using a by (simp add: field_simps)
  have "\<lfloor>1 / a\<rfloor> + 1 \<le> 2 ^ nat ?b" using hi by simp
  then have "of_int (\<lfloor>1 / a\<rfloor> + 1) \<le> (2::real) ^ nat ?b"
    by (metis of_int_le_iff of_int_numeral of_int_power)
  then have "1 / a < (2::real) ^ nat ?b" by linarith
  then have h: "1 < a * 2 ^ nat ?b"
    using a by (simp add: field_simps)
  have e1: "(2::real) ^ nat (?b - 1) = 2 powi (?b - 1)"
    using b1 by (simp add: power_int_nonneg_exp)
  have e2: "(2::real) ^ nat ?b = 2 powi ?b"
    using b1 by (simp add: power_int_nonneg_exp)
  have m1: "(2::real) powi (1 - ?b) = 1 / 2 powi (?b - 1)"
    using power_int_minus_divide [of "2::real" "?b - 1"] by simp
  have m2: "(2::real) powi (- ?b) = 1 / 2 powi ?b"
    by (rule power_int_minus_divide)
  have pos: "0 < (2::real) powi k" for k
    by simp
  have P1: "2 powi (- ?b) < a"
    using h pos [of ?b] by (simp add: e2 m2 field_simps)
  have P2: "a \<le> 2 powi (1 - ?b)"
    using l pos [of "?b - 1"] by (simp add: e1 m1 field_simps)
  have up: "(2::real) powi (k + 1) = 2 powi k * 2" for k
    by (rule power_int_add_1) simp
  show ?thesis
  proof (cases "a * 2 ^ nat (?b - 1) = 1")
    case True
    then have eq: "a = 2 powi (1 - ?b)"
      using pos [of "?b - 1"] by (simp add: e1 m1 field_simps)
    have "binade a = 1 - ?b"
      using False True by (simp add: binade_def Let_def)
    moreover have "a < 2 powi (1 - ?b + 1)"
      using pos [of "1 - ?b"] up [of "1 - ?b"] eq by linarith
    ultimately show ?thesis using eq by simp
  next
    case F: False
    then have ne: "a \<noteq> 2 powi (1 - ?b)"
      using pos [of "?b - 1"] by (simp add: e1 m1 field_simps)
    have "binade a = - ?b"
      using False F by (simp add: binade_def Let_def)
    moreover have "a < 2 powi (- ?b + 1)"
      using P2 ne by (simp add: add.commute)
    ultimately show ?thesis using P1 by simp
  qed
qed

lemma fl_exact:
  assumes "\<bar>m\<bar> < 2 ^ 53" and "- 1074 \<le> k"
  shows "fl (of_int m * 2 powi k) = of_int m * 2 powi k"
proof (cases "m = 0")
  case True
  then show ?thesis by (simp add: fl_def)
next
  case False
  let ?x = "of_int m * (2::real) powi k"
  have xpos: "0 < \<bar>?x\<bar>" using False by simp
  let ?e = "binade \<bar>?x\<bar>"
  from binade_bounds [OF xpos] have lo: "2 powi ?e \<le> \<bar>?x\<bar>" by simp
  have "\<bar>?x\<bar> = of_int \<bar>m\<bar> * 2 powi k"
    by (simp add: abs_mult)
  also have "\<dots> < 2 ^ 53 * 2 powi k"
  proof -
    have "(of_int \<bar>m\<bar> :: real) < 2 ^ 53"
      using assms(1) by (metis of_int_less_iff of_int_numeral of_int_power) 
    then show ?thesis by simp
  qed
  also have "\<dots> = 2 powi (53 + k)"
    by (simp add: power_int_add)
  finally have "(2::real) powi ?e < 2 powi (53 + k)"
    using lo by linarith
  then have "?e < 53 + k"
    using power_int_increasing [of "53 + k" ?e "2::real"] by (cases "?e < 53 + k") auto
  then have q: "max ?e (- 1022) - 52 \<le> k"
    using assms(2) by simp
  define q where "q = max ?e (- 1022) - 52"
  have "?x / 2 powi q = of_int m * 2 powi (k - q)"
    by (simp add: power_int_diff)
  also have "2 powi (k - q) = (2::real) ^ nat (k - q)"
    using q by (simp add: q_def power_int_nonneg_exp)
  finally have "?x / 2 powi q = of_int (m * 2 ^ nat (k - q))"
    by simp
  then have "round_half_even (?x / 2 powi q) = m * 2 ^ nat (k - q)"
    by (simp only: round_half_even_of_int)
  then have "real_of_int (round_half_even (?x / 2 powi q)) * 2 powi q
      = real_of_int m * (2 ^ nat (k - q) * 2 powi q)"
    by simp
  also have "(2::real) ^ nat (k - q) * 2 powi q = 2 powi k"
    using q by (simp add: q_def flip: power_int_nonneg_exp power_int_add)
  finally show ?thesis
    using False by (simp add: fl_def Let_def q_def)
qed

subsection \<open>Conversion of integers and rounding to decimals\<close>

lemma float_of_int_exact:
  assumes "\<bar>n\<bar> \<le> 2 ^ 53"
  shows "float_of_int n = Inr (of_int n)"
proof -
  have ex: "fl (of_int n) = of_int n"
  proof (cases "\<bar>n\<bar> < 2 ^ 53")
    case True
    from fl_exact [OF True, of 0] show ?thesis by simp
  next
    case False
    with assms have "n = 2 ^ 53 \<or> n = - (2 ^ 53)" by linarith
    then show ?thesis
      using fl_exact [of 1 53] fl_exact [of "- 1" 53] by auto
  qed
  have "\<bar>real_of_int n\<bar> \<le> 2 ^ 53"
    using assms by (metis of_int_abs of_int_le_iff of_int_numeral of_int_power)
  then have "\<bar>real_of_int n\<bar> < 2 ^ 1024"
    by (rule le_less_trans) simp
  then show ?thesis
    by (simp add: float_of_int_def ex Let_def)
qed

lemma py_round_tenth:
  "\<exists>k. py_round x 1 = fl (of_int k / 10) \<and> \<bar>of_int k / 10 - x\<bar> \<le> 1 / 20"
proof -
  let ?k = "round_half_even (x * 10)"
  have "\<bar>of_int ?k - x * 10\<bar> \<le> 1 / 2" by (rule round_half_even_error)
  then have "\<bar>of_int ?k / 10 - x\<bar> \<le> 1 / 20" by (simp add: field_simps abs_if split: if_splits)
  then show ?thesis by (auto simp: py_round_def)
qed

lemma round_half_even_minus: "round_half_even (- y) = - round_half_even y"
proof -
  define f where "f = \<lfloor>y\<rfloor>"
  define d where "d = y - of_int f"
  have d: "0 \<le> d" "d < 1" and y: "y = of_int f + d"
    by (simp_all add: d_def f_def) linarith+
  show ?thesis
  proof (cases "d = 0")
    case True
    then have "y = of_int f" using y by simp
    then show ?thesis by (simp add: round_half_even_of_int flip: of_int_minus)
  next
    case False
    have "- y = of_int (- f - 1) + (1 - d)" using y by simp
    moreover have "0 \<le> 1 - d" "1 - d < 1" using d False by auto
    ultimately have fl: "\<lfloor>- y\<rfloor> = - f - 1"
      by (metis floor_unique add.commute add_le_cancel_right add_less_cancel_right
          le_add_same_cancel1 less_add_same_cancel1 add_strict_left_mono add_left_mono)
    have r1: "round_half_even y =
        (if d < 1 / 2 then f else if 1 / 2 < d then f + 1 else if even f then f else f + 1)"
      by (simp add: round_half_even_def Let_def d_def f_def)
    have "- y - of_int (- f - 1) = 1 - d" using y by simp
    then have r2: "round_half_even (- y) =
        (if 1 - d < 1 / 2 then - f - 1 else if 1 / 2 < 1 - d then - f
         else if even (- f - 1) then - f - 1 else - f)"
      by (simp add: round_half_even_def Let_def fl)
    show ?thesis
      unfolding r1 r2 by (auto simp: field_simps)
  qed
qed

lemma fl_minus: "fl (- x) = - fl x"
  by (simp add: fl_def Let_def round_half_even_minus)

lemma round_half_even_mono_int_le: "y \<le> of_int K \<Longrightarrow> round_half_even y \<le> K"
  unfolding round_half_even_def Let_def by (auto; linarith)

lemma round_half_even_mono_int_ge: "of_int K \<le> y \<Longrightarrow> K \<le> round_half_even y"
  unfolding round_half_even_def Let_def by (auto; linarith)

lemma round_half_even_below_half: "y < of_int K - 1 / 2 \<Longrightarrow> round_half_even y \<le> K - 1"
  unfolding round_half_even_def Let_def by (auto; linarith)

lemma round_half_even_from_half:
  assumes "even K" and "of_int K - 1 / 2 \<le> y"
  shows "K \<le> round_half_even y"
proof (cases "of_int K \<le> y")
  case True
  then show ?thesis by (rule round_half_even_mono_int_ge)
next
  case False
  with assms(2) have f: "\<lfloor>y\<rfloor> = K - 1" by linarith
  have "odd (K - 1)" using assms(1) by simp
  then show ?thesis
    using assms(2) False by (simp add: round_half_even_def Let_def f)
qed

subsection \<open>The integers that do not convert\<close>

lemma fl_of_pos_int:
  assumes "0 < n"
  shows "0 \<le> binade (of_int n)"
    and "fl (of_int n) =
      of_int (round_half_even (of_int n / 2 powi (binade (of_int n) - 52)))
        * 2 powi (binade (of_int n) - 52)"
proof -
  have n1: "1 \<le> real_of_int n" using assms by simp
  from assms have "0 < bitlen n" by (simp add: bitlen_alt_def)
  then show e: "0 \<le> binade (of_int n)"
    using n1 by (simp add: binade_def)
  have "real_of_int n \<noteq> 0" using assms by simp
  moreover have "\<bar>real_of_int n\<bar> = of_int n" using assms by simp
  ultimately show "fl (of_int n) =
      of_int (round_half_even (of_int n / 2 powi (binade (of_int n) - 52)))
        * 2 powi (binade (of_int n) - 52)"
    using e by (simp add: fl_def Let_def max_def)
qed

lemma powi_less_cancel: "(2::real) powi a < 2 powi b \<Longrightarrow> a < b"
  using power_int_increasing [of b a "2::real"] by (cases "a < b") auto

lemma fl_pos_int_overflow_iff:
  assumes "0 < n"
  shows "2 ^ 1024 \<le> fl (of_int n) \<longleftrightarrow> 2 ^ 1024 - 2 ^ 970 \<le> n"
proof -
  define e where "e = binade (of_int n)"
  define y where "y = real_of_int n / 2 powi (e - 52)"
  have npos: "0 < real_of_int n" using assms by simp
  from binade_bounds [OF npos] have lo: "2 powi e \<le> real_of_int n"
    and hi: "real_of_int n < 2 powi (e + 1)"
    by (simp_all add: e_def)
  have flv: "fl (of_int n) = of_int (round_half_even y) * 2 powi (e - 52)"
    using fl_of_pos_int(2) [OF assms] by (simp add: e_def y_def)
  have pq: "0 < (2::real) powi (e - 52)" by simp
  have ylo: "2 ^ 52 \<le> y"
  proof -
    have "(2::real) powi e = 2 ^ 52 * 2 powi (e - 52)"
      using power_int_add [of "2::real" 52 "e - 52"] by simp
    then show ?thesis
      using lo pq by (simp add: y_def field_simps)
  qed
  have yhi: "y < 2 ^ 53"
  proof -
    have "(2::real) powi (e + 1) = 2 ^ 53 * 2 powi (e - 52)"
      using power_int_add [of "2::real" 53 "e - 52"] by (simp add: add.commute)
    then show ?thesis
      using hi pq by (simp add: y_def field_simps)
  qed
  have r_lo: "2 ^ 52 \<le> round_half_even y"
    using round_half_even_mono_int_ge [of "2 ^ 52" y] ylo by simp
  have r_hi: "round_half_even y \<le> 2 ^ 53"
    using round_half_even_mono_int_le [of y "2 ^ 53"] yhi by simp
  have T: "(2::real) ^ 1024 - 2 ^ 970 = (2 ^ 53 - 1 / 2) * 2 ^ 971"
    by simp
  have nT: "(2 ^ 1024 - 2 ^ 970 \<le> n) = ((2::real) ^ 1024 - 2 ^ 970 \<le> real_of_int n)"
  proof -
    have "real_of_int (2 ^ 1024 - 2 ^ 970) = 2 ^ 1024 - 2 ^ 970" by simp
    then show ?thesis by (metis of_int_le_iff)
  qed
  consider "e \<le> 1022" | "e = 1023" | "1024 \<le> e" by linarith
  then show ?thesis
  proof cases
    case 1
    then have "(2::real) powi (e - 52) \<le> 2 powi 970"
      by (intro power_int_increasing) auto
    moreover have "real_of_int (round_half_even y) \<le> 2 ^ 53"
      using r_hi by (metis of_int_le_iff of_int_numeral of_int_power)
    moreover have "0 \<le> real_of_int (round_half_even y)"
      using r_lo by (smt (verit) of_int_nonneg zero_le_power)
    ultimately have "fl (of_int n) \<le> 2 ^ 53 * 2 powi 970"
      unfolding flv using pq by (intro mult_mono) auto
    then have a: "fl (of_int n) < 2 ^ 1024" by simp
    have "(2::real) powi (e + 1) \<le> 2 powi 1023"
      using 1 by (intro power_int_increasing) auto
    then have "real_of_int n < 2 ^ 1023" using hi by simp
    then have b: "\<not> (2::real) ^ 1024 - 2 ^ 970 \<le> real_of_int n" by simp
    show ?thesis using a b nT by simp
  next
    case 2
    then have p: "(2::real) powi (e - 52) = 2 ^ 971" by simp
    show ?thesis
    proof (cases "(2::real) ^ 1024 - 2 ^ 970 \<le> real_of_int n")
      case True
      then have "2 ^ 53 - 1 / 2 \<le> y"
        by (simp add: y_def p T field_simps)
      then have "2 ^ 53 \<le> round_half_even y"
        using round_half_even_from_half [of "2 ^ 53" y] by simp
      then have "(2::real) ^ 53 \<le> real_of_int (round_half_even y)"
        by (metis of_int_le_iff of_int_numeral of_int_power)
      then have "2 ^ 53 * 2 ^ 971 \<le> fl (of_int n)"
        unfolding flv p by (intro mult_right_mono) auto
      then show ?thesis using True nT by simp
    next
      case False
      then have "y < 2 ^ 53 - 1 / 2"
        by (simp add: y_def p T field_simps)
      then have "round_half_even y \<le> 2 ^ 53 - 1"
        using round_half_even_below_half [of y "2 ^ 53"] by simp
      then have "real_of_int (round_half_even y) \<le> real_of_int (2 ^ 53 - 1)"
        by (simp only: of_int_le_iff)
      then have "real_of_int (round_half_even y) \<le> 2 ^ 53 - 1"
        by simp
      then have "fl (of_int n) \<le> (2 ^ 53 - 1) * 2 ^ 971"
        unfolding flv p by (intro mult_right_mono) auto
      then have "fl (of_int n) < 2 ^ 1024" by simp
      then show ?thesis using False nT by simp
    qed
  next
    case 3
    then have "(2::real) powi 1024 \<le> 2 powi e"
      by (intro power_int_increasing) auto
    then have t: "(2::real) ^ 1024 - 2 ^ 970 \<le> real_of_int n" using lo by simp
    have "(2::real) ^ 52 \<le> real_of_int (round_half_even y)"
      using r_lo by (metis of_int_le_iff of_int_numeral of_int_power)
    then have "2 ^ 52 * 2 powi (e - 52) \<le> fl (of_int n)"
      unfolding flv by (intro mult_right_mono) auto
    moreover have "(2::real) ^ 52 * 2 powi (e - 52) = 2 powi e"
      using power_int_add [of "2::real" 52 "e - 52"] by simp
    ultimately have "2 ^ 1024 \<le> fl (of_int n)"
      using \<open>(2::real) powi 1024 \<le> 2 powi e\<close> by simp
    then show ?thesis using t nT by simp
  qed
qed

lemma fl_pos_int_nonneg:
  assumes "0 < n"
  shows "0 \<le> fl (of_int n)"
proof -
  have "0 \<le> real_of_int n / 2 powi (binade (of_int n) - 52)"
    using assms by simp
  then have "0 \<le> round_half_even (real_of_int n / 2 powi (binade (of_int n) - 52))"
    using round_half_even_mono_int_ge [of 0] by simp
  then show ?thesis
    by (simp add: fl_of_pos_int(2) [OF assms])
qed

lemma float_of_int_overflow_iff:
  "float_of_int n = Inl OverflowError \<longleftrightarrow> 2 ^ 1024 - 2 ^ 970 \<le> \<bar>n\<bar>"
proof -
  have d: "float_of_int n = Inl OverflowError \<longleftrightarrow> 2 ^ 1024 \<le> \<bar>fl (of_int n)\<bar>"
    by (simp add: float_of_int_def Let_def)
  consider "n = 0" | "0 < n" | "n < 0" by linarith
  then show ?thesis
  proof cases
    case 1
    then show ?thesis by (simp add: float_of_int_def fl_def Let_def)
  next
    case 2
    then show ?thesis
      using fl_pos_int_overflow_iff [OF 2] fl_pos_int_nonneg [OF 2] by (simp add: d)
  next
    case 3
    then have p: "0 < - n" by simp
    have "fl (of_int n) = - fl (of_int (- n))"
      using fl_minus [of "of_int (- n)"] by simp
    then have "\<bar>fl (of_int n)\<bar> = fl (of_int (- n))"
      using fl_pos_int_nonneg [OF p] by simp
    then show ?thesis
      using fl_pos_int_overflow_iff [OF p] 3 by (simp add: d)
  qed
qed

lemma float_of_int_cases:
  "float_of_int n = (if 2 ^ 1024 - 2 ^ 970 \<le> \<bar>n\<bar> then Inl OverflowError else Inr (fl (of_int n)))"
  using float_of_int_overflow_iff [of n] by (auto simp: float_of_int_def Let_def)

section \<open>Probe state\<close>

subsection \<open>Liveness\<close>

lemma toggle_health_HEALTHY: "HEALTHY (snd (toggle_health g)) = (\<not> HEALTHY g)"
  by (simp add: toggle_health_def Let_def)

lemma toggles_health: "HEALTHY (((snd \<circ> toggle_health) ^^ n) g) = (HEALTHY g \<noteq> odd n)"
  by (induction n) (auto simp: toggle_health_HEALTHY)

lemma liveness_status: "status_code (liveness g now) = (if HEALTHY g then 200 else 503)"
  by (simp add: liveness_def HTMLResponse_def Let_def)

text \<open>
  C6. After \<open>n\<close> calls of \<^verbatim>\<open>/toggle-health\<close> the flag \<^verbatim>\<open>HEALTHY\<close> is its initial value
  XOR (\<open>n mod 2 = 1\<close>); \<^verbatim>\<open>/healthz\<close> answers 200 exactly when the flag is true and 503
  exactly when it is false. A fresh instance is healthy; after one toggle
  \<^verbatim>\<open>/healthz\<close> answers 503, after a second toggle 200 again.
\<close>

theorem toggle_health_parity:
  "HEALTHY (((snd \<circ> toggle_health) ^^ n) g) = (HEALTHY g \<noteq> (n mod 2 = 1))
   \<and> (status_code (liveness g now) = 200) = HEALTHY g
   \<and> (status_code (liveness g now) = 503) = (\<not> HEALTHY g)
   \<and> HEALTHY (fresh_instance t d)
   \<and> status_code (liveness (snd (toggle_health (fresh_instance t d))) now) = 503
   \<and> status_code
        (liveness (snd (toggle_health (snd (toggle_health (fresh_instance t d))))) now) = 200"
  by (simp add: toggles_health liveness_status toggle_health_HEALTHY odd_iff_mod_2_eq_one)
    (simp add: fresh_instance_def)

subsection \<open>Readiness\<close>

lemma toggle_ready_state: "snd (toggle_ready g) = g\<lparr> READY := \<not> READY g \<rparr>"
  by (simp add: toggle_ready_def Let_def)

lemma toggles_ready_consts:
  "APP_START_TIME (((snd \<circ> toggle_ready) ^^ n) g) = APP_START_TIME g
   \<and> STARTUP_DELAY (((snd \<circ> toggle_ready) ^^ n) g) = STARTUP_DELAY g"
  by (induction n) (simp_all add: toggle_ready_state)

lemma readiness_open:
  "APP_START_TIME g + of_int (STARTUP_DELAY g) \<le> now \<Longrightarrow>
     readiness g now =
       (HTMLResponse (Readiness_page (POD_NAME g) (STARTUP_DELAY g) (NAMESPACE g)),
        g\<lparr> READY := True \<rparr>)"
  by (simp add: readiness_def Let_def)

lemma readiness_closed:
  "now < APP_START_TIME g + of_int (STARTUP_DELAY g) \<Longrightarrow>
   float_of_int (STARTUP_DELAY g) = Inr d \<Longrightarrow>
     readiness g now =
       (\<lparr> status_code = 503,
          content = Not_ready_yet_page (py_round (fl (d - (now - APP_START_TIME g))) 1)
                      (POD_NAME g) \<rparr>, g)"
  by (simp add: readiness_def Let_def)

lemma readiness_overflow:
  "now < APP_START_TIME g + of_int (STARTUP_DELAY g) \<Longrightarrow>
   float_of_int (STARTUP_DELAY g) = Inl e \<Longrightarrow>
     readiness g now = (\<lparr> status_code = 500, content = Internal_server_error \<rparr>, g)"
  by (simp add: readiness_def respond_def Let_def)

lemma py_round_2: "py_round 2 (Suc 0) = 2"
  by code_simp

text \<open>
  C1. The claim: once the startup delay has elapsed, \<^verbatim>\<open>/ready\<close> reports the value
  \<^verbatim>\<open>/toggle-ready\<close> last set, 200 for READY and 503 for NOT READY. The code at
  \<^verbatim>\<open>STARTUP_DELAY = 5\<close> and a process started at time 0: \<^verbatim>\<open>/ready\<close> at 6 s answers 200
  and sets \<^verbatim>\<open>READY\<close>; \<^verbatim>\<open>/toggle-ready\<close> at 7 s clears \<^verbatim>\<open>READY\<close> and its page reports
  NOT READY; \<^verbatim>\<open>/ready\<close> at 8 s answers 200 all the same and sets \<^verbatim>\<open>READY\<close> again.
\<close>

theorem readiness_ignores_toggle_ready:
  "map status_code
     (fst (serve (fresh_instance 0 5) [(6, Get_ready), (7, Get_toggle_ready), (8, Get_ready)]))
     = [200, 200, 200]
   \<and> READY (snd (serve (fresh_instance 0 5) [(6, Get_ready)]))
   \<and> \<not> READY (snd (serve (fresh_instance 0 5) [(6, Get_ready), (7, Get_toggle_ready)]))
   \<and> content (fst (serve (fresh_instance 0 5) [(6, Get_ready), (7, Get_toggle_ready)]) ! 1)
       = Readiness_toggled_page ''fail'' ''NOT READY'' ''unknown-pod'' True ''default''
   \<and> READY (snd (serve (fresh_instance 0 5)
               [(6, Get_ready), (7, Get_toggle_ready), (8, Get_ready)]))"
  by (simp add: fresh_instance_def readiness_def toggle_ready_def HTMLResponse_def Let_def)

text \<open>
  C2. A request to \<^verbatim>\<open>/ready\<close> made at or after \<^verbatim>\<open>APP_START_TIME + STARTUP_DELAY\<close> is
  answered 200 and leaves \<^verbatim>\<open>READY\<close> set to true, whatever the state was and after any
  number \<open>n\<close> of earlier \<^verbatim>\<open>/toggle-ready\<close> calls; so \<^verbatim>\<open>/ready\<close> never answers 503 once
  the delay has elapsed, and the query changes the state whenever \<^verbatim>\<open>READY\<close> was false.
\<close>

theorem readiness_after_delay_sets_ready:
  assumes "APP_START_TIME g + of_int (STARTUP_DELAY g) \<le> now"
  shows "status_code (fst (readiness g now)) = 200
    \<and> snd (readiness g now) = g\<lparr> READY := True \<rparr>
    \<and> READY (snd (readiness g now))
    \<and> status_code (fst (readiness (((snd \<circ> toggle_ready) ^^ n) g) now)) = 200
    \<and> READY (snd (readiness (((snd \<circ> toggle_ready) ^^ n) g) now))
    \<and> (\<not> READY g \<longrightarrow> snd (readiness g now) \<noteq> g)"
proof -
  let ?h = "((snd \<circ> toggle_ready) ^^ n) g"
  have "APP_START_TIME ?h + of_int (STARTUP_DELAY ?h) \<le> now"
    using assms by (simp add: toggles_ready_consts)
  then have h: "readiness ?h now =
      (HTMLResponse (Readiness_page (POD_NAME ?h) (STARTUP_DELAY ?h) (NAMESPACE ?h)),
       ?h\<lparr> READY := True \<rparr>)"
    by (rule readiness_open)
  have neq: "\<not> READY g \<longrightarrow> g\<lparr> READY := True \<rparr> \<noteq> g"
    by (metis globals.select_convs(3) globals.surjective globals.update_convs(3))
  show ?thesis
    using neq by (simp add: readiness_open [OF assms] h HTMLResponse_def)
qed

theorem readiness_after_delay_sets_ready_witness:
  "status_code (fst (readiness (snd (toggle_ready (fresh_instance 0 5))) 5)) = 200
   \<and> READY (snd (readiness (fresh_instance 0 5) 5))
   \<and> snd (readiness (fresh_instance 0 5) 5) \<noteq> fresh_instance 0 5"
  using readiness_after_delay_sets_ready [of "fresh_instance 0 5" 5 1]
  by (simp add: fresh_instance_def)

lemma fl_small_values:
  "fl 2 = 2" "fl (7 / 4) = 7 / 4" "fl (5 / 4) = 5 / 4" "fl (27 / 16) = 27 / 16"
  "fl 9007199254740989 = 9007199254740989"
  by code_simp+

lemma round_half_even_values:
  "round_half_even (35 / 2) = 18" "round_half_even (25 / 2) = 12"
  "round_half_even (135 / 8) = 17" "round_half_even 90071992547409890 = 90071992547409890"
  by code_simp+

lemma fl_tenths:
  "fl (9 / 5) = 8106479329266893 / 4503599627370496"
  "fl (6 / 5) = 5404319552844595 / 4503599627370496"
  "fl (17 / 10) = 7656119366529843 / 4503599627370496"
  by code_simp+

lemma float_of_int_overflows:
  "float_of_int (2 ^ 1024) = Inl OverflowError"
  "float_of_int (2 ^ 1024 - 2 ^ 970) = Inl OverflowError"
  "float_of_int (2 ^ 1024 - 2 ^ 970 - 1) = Inr (fl (2 ^ 1024 - 2 ^ 970 - 1))"
  by (simp_all add: float_of_int_cases)

lemma float_of_int_rounds: "float_of_int (2 ^ 53 + 1) = Inr (2 ^ 53)"
  by code_simp

text \<open>
  C3, as the claim states it, fails. With \<^verbatim>\<open>STARTUP_DELAY = 2 ** 1024\<close> a request 3 s
  after the start is before the end of the delay, and the handler raises
  \<^verbatim>\<open>OverflowError\<close> when it converts the delay to a float: the answer is 500, not 503.
  With \<^verbatim>\<open>STARTUP_DELAY = 2 ** 53 + 1\<close> the request is answered 503, and the page reports
  9007199254740989 seconds, the result of the double arithmetic, where 9007199254740990
  seconds remain.
\<close>

theorem readiness_before_delay_counterexample:
  "(3 :: real) < APP_START_TIME (fresh_instance 0 (2 ^ 1024))
                  + of_int (STARTUP_DELAY (fresh_instance 0 (2 ^ 1024)))
   \<and> status_code (fst (readiness (fresh_instance 0 (2 ^ 1024)) 3)) = 500
   \<and> (3 :: real) < APP_START_TIME (fresh_instance 0 (2 ^ 53 + 1))
                  + of_int (STARTUP_DELAY (fresh_instance 0 (2 ^ 53 + 1)))
   \<and> fst (readiness (fresh_instance 0 (2 ^ 53 + 1)) 3) =
       \<lparr> status_code = 503, content = Not_ready_yet_page 9007199254740989 ''unknown-pod'' \<rparr>
   \<and> APP_START_TIME (fresh_instance 0 (2 ^ 53 + 1))
        + of_int (STARTUP_DELAY (fresh_instance 0 (2 ^ 53 + 1))) - 3 = (9007199254740990 :: real)"
proof -
  have a: "fst (readiness (fresh_instance 0 (2 ^ 1024)) 3) =
      \<lparr> status_code = 500, content = Internal_server_error \<rparr>"
    using readiness_overflow [of 3 "fresh_instance 0 (2 ^ 1024)" OverflowError]
      float_of_int_overflows(1)
    by (simp add: fresh_instance_def)
  have b: "fst (readiness (fresh_instance 0 (2 ^ 53 + 1)) 3) =
      \<lparr> status_code = 503, content = Not_ready_yet_page 9007199254740989 ''unknown-pod'' \<rparr>"
    using readiness_closed [of 3 "fresh_instance 0 (2 ^ 53 + 1)" "2 ^ 53"]
      float_of_int_rounds
    by (simp add: fresh_instance_def py_round_def fl_small_values round_half_even_values)
  show ?thesis
    using a b by (simp add: fresh_instance_def)
qed

text \<open>
  C3, amended. A request to \<^verbatim>\<open>/ready\<close> made strictly before
  \<^verbatim>\<open>APP_START_TIME + STARTUP_DELAY\<close>, with a delay that converts to a float (smaller in
  magnitude than \<open>2 ^ 1024 - 2 ^ 970\<close>) and less than \<open>2 ^ 970\<close> seconds from the start
  (where the difference of the two stays a finite double), is answered 503; the page
  reports \<^verbatim>\<open>round(STARTUP_DELAY - elapsed, 1)\<close> as the double arithmetic gives it; the
  state, the toggled flag included, is neither read nor changed. When the delay is at most
  \<open>2 ^ 53\<close> in magnitude and the remaining time is a double, the reported number is the
  remaining time rounded to one decimal. Rounding to one decimal gives the double
  nearest to a multiple of 0.1 that is within 0.05 of the number rounded, a tie going to
  the even multiple. With a delay of 5 s a request 3 s after the start is answered 503
  with 2 seconds remaining, and a request 6 s after the start is answered 200; requests
  3.25 s, 3.75 s and 3.3125 s after the start report the doubles of 1.8, 1.2 and 1.7.
\<close>

theorem readiness_before_delay_not_ready:
  "(now < APP_START_TIME g + of_int (STARTUP_DELAY g)
      \<and> \<bar>STARTUP_DELAY g\<bar> < 2 ^ 1024 - 2 ^ 970
      \<and> \<bar>now - APP_START_TIME g\<bar> < 2 ^ 970 \<longrightarrow>
      status_code (fst (readiness g now)) = 503
      \<and> content (fst (readiness g now)) =
          Not_ready_yet_page
            (py_round (fl (fl (of_int (STARTUP_DELAY g)) - (now - APP_START_TIME g))) 1)
            (POD_NAME g)
      \<and> fst (readiness (g\<lparr> READY := b \<rparr>) now) = fst (readiness g now)
      \<and> snd (readiness g now) = g)
   \<and> (now < APP_START_TIME g + of_int (STARTUP_DELAY g)
        \<and> \<bar>STARTUP_DELAY g\<bar> \<le> 2 ^ 53 \<and> \<bar>now - APP_START_TIME g\<bar> < 2 ^ 970
        \<and> \<bar>m\<bar> < 2 ^ 53 \<and> - 1074 \<le> k
        \<and> APP_START_TIME g + of_int (STARTUP_DELAY g) - now = of_int m * 2 powi k \<longrightarrow>
      content (fst (readiness g now)) =
        Not_ready_yet_page
          (py_round (APP_START_TIME g + of_int (STARTUP_DELAY g) - now) 1) (POD_NAME g))
   \<and> (\<exists>j. py_round x 1 = fl (of_int j / 10) \<and> \<bar>of_int j / 10 - x\<bar> \<le> 1 / 20)
   \<and> fst (readiness (g\<lparr> APP_START_TIME := t, STARTUP_DELAY := 5 \<rparr>) (t + 3)) =
        \<lparr> status_code = 503, content = Not_ready_yet_page 2 (POD_NAME g) \<rparr>
   \<and> status_code (fst (readiness (g\<lparr> APP_START_TIME := t, STARTUP_DELAY := 5 \<rparr>) (t + 6))) = 200
   \<and> content (fst (readiness (g\<lparr> APP_START_TIME := t, STARTUP_DELAY := 5 \<rparr>) (t + 13 / 4))) =
        Not_ready_yet_page (8106479329266893 / 4503599627370496) (POD_NAME g)
   \<and> content (fst (readiness (g\<lparr> APP_START_TIME := t, STARTUP_DELAY := 5 \<rparr>) (t + 15 / 4))) =
        Not_ready_yet_page (5404319552844595 / 4503599627370496) (POD_NAME g)
   \<and> content (fst (readiness (g\<lparr> APP_START_TIME := t, STARTUP_DELAY := 5 \<rparr>) (t + 53 / 16))) =
        Not_ready_yet_page (7656119366529843 / 4503599627370496) (POD_NAME g)"
proof -
  have 1: "status_code (fst (readiness g now)) = 503
      \<and> content (fst (readiness g now)) =
          Not_ready_yet_page
            (py_round (fl (fl (of_int (STARTUP_DELAY g)) - (now - APP_START_TIME g))) 1)
            (POD_NAME g)
      \<and> fst (readiness (g\<lparr> READY := b \<rparr>) now) = fst (readiness g now)
      \<and> snd (readiness g now) = g"
    if "now < APP_START_TIME g + of_int (STARTUP_DELAY g)"
      and "\<bar>STARTUP_DELAY g\<bar> < 2 ^ 1024 - 2 ^ 970"
  proof -
    have d: "float_of_int (STARTUP_DELAY g) = Inr (fl (of_int (STARTUP_DELAY g)))"
      using that(2) by (simp add: float_of_int_cases)
    have "readiness (g\<lparr> READY := b \<rparr>) now =
        (\<lparr> status_code = 503,
           content = Not_ready_yet_page
             (py_round (fl (fl (of_int (STARTUP_DELAY g)) - (now - APP_START_TIME g))) 1)
             (POD_NAME g) \<rparr>, g\<lparr> READY := b \<rparr>)"
      using readiness_closed [of now "g\<lparr> READY := b \<rparr>" "fl (of_int (STARTUP_DELAY g))"]
        that(1) d
      by simp
    then show ?thesis
      using readiness_closed [OF that(1) d] by simp
  qed
  have 2: "content (fst (readiness g now)) =
        Not_ready_yet_page
          (py_round (APP_START_TIME g + of_int (STARTUP_DELAY g) - now) 1) (POD_NAME g)"
    if "now < APP_START_TIME g + of_int (STARTUP_DELAY g)"
      and "\<bar>STARTUP_DELAY g\<bar> \<le> 2 ^ 53" and "\<bar>m\<bar> < 2 ^ 53" and "- 1074 \<le> k"
      and "APP_START_TIME g + of_int (STARTUP_DELAY g) - now = of_int m * 2 powi k"
  proof -
    have d: "float_of_int (STARTUP_DELAY g) = Inr (of_int (STARTUP_DELAY g))"
      using that(2) by (rule float_of_int_exact)
    have e: "of_int (STARTUP_DELAY g) - (now - APP_START_TIME g)
        = APP_START_TIME g + of_int (STARTUP_DELAY g) - now"
      by simp
    have "fl (APP_START_TIME g + of_int (STARTUP_DELAY g) - now)
        = APP_START_TIME g + of_int (STARTUP_DELAY g) - now"
      using fl_exact [OF that(3) that(4)] by (simp only: that(5))
    then show ?thesis
      using readiness_closed [OF that(1) d] by (simp only: e) simp
  qed
  have 3: "\<exists>j. py_round x 1 = fl (of_int j / 10) \<and> \<bar>of_int j / 10 - x\<bar> \<le> 1 / 20"
    by (rule py_round_tenth)
  let ?g = "g\<lparr> APP_START_TIME := t, STARTUP_DELAY := 5 \<rparr>"
  have d5: "float_of_int (STARTUP_DELAY ?g) = Inr 5"
    using float_of_int_exact [of 5] by simp
  have r: "readiness ?g (t + e) =
      (\<lparr> status_code = 503,
         content = Not_ready_yet_page (py_round (fl (5 - e)) 1) (POD_NAME g) \<rparr>, ?g)"
    if "e < 5" for e
    using readiness_closed [of "t + e" ?g 5] that d5 by simp
  have 4: "fst (readiness ?g (t + 3)) =
        \<lparr> status_code = 503, content = Not_ready_yet_page 2 (POD_NAME g) \<rparr>"
    using r [of 3] by (simp add: fl_small_values py_round_2)
  have 5: "status_code (fst (readiness ?g (t + 6))) = 200"
    by (simp add: readiness_open HTMLResponse_def)
  have 6: "content (fst (readiness ?g (t + 13 / 4))) =
        Not_ready_yet_page (8106479329266893 / 4503599627370496) (POD_NAME g)"
    using r [of "13 / 4"]
    by (simp add: fl_small_values py_round_def round_half_even_values fl_tenths)
  have 7: "content (fst (readiness ?g (t + 15 / 4))) =
        Not_ready_yet_page (5404319552844595 / 4503599627370496) (POD_NAME g)"
    using r [of "15 / 4"]
    by (simp add: fl_small_values py_round_def round_half_even_values fl_tenths)
  have 8: "content (fst (readiness ?g (t + 53 / 16))) =
        Not_ready_yet_page (7656119366529843 / 4503599627370496) (POD_NAME g)"
    using r [of "53 / 16"]
    by (simp add: fl_small_values py_round_def round_half_even_values fl_tenths)
  from 1 2 3 4 5 6 7 8 show ?thesis by blast
qed

theorem readiness_before_delay_not_ready_witness:
  "(3 :: real) < 0 + of_int 5 \<and> \<bar>5 :: int\<bar> < 2 ^ 1024 - 2 ^ 970 \<and> \<bar>(3 :: real) - 0\<bar> < 2 ^ 970
   \<and> fst (readiness (fresh_instance 0 5) 3) =
       \<lparr> status_code = 503, content = Not_ready_yet_page 2 ''unknown-pod'' \<rparr>
   \<and> fst (readiness (snd (toggle_ready (fresh_instance 0 5))) 3) =
       \<lparr> status_code = 503, content = Not_ready_yet_page 2 ''unknown-pod'' \<rparr>
   \<and> content (fst (readiness (fresh_instance 0 5) (13 / 4))) =
       Not_ready_yet_page (8106479329266893 / 4503599627370496) ''unknown-pod''"
  using readiness_before_delay_not_ready
      [where now = 3 and g = "fresh_instance 0 5" and b = True and m = 2 and k = 0 and t = 0]
    readiness_before_delay_not_ready
      [where now = 3 and g = "snd (toggle_ready (fresh_instance 0 5))" and b = True
        and m = 2 and k = 0 and t = 0]
  by (simp add: fresh_instance_def toggle_ready_state py_round_2 fl_small_values)

subsection \<open>Startup\<close>

lemma handle_APP_START_TIME: "APP_START_TIME (snd (handle g now r)) = APP_START_TIME g"
  by (cases r)
    (simp_all add: readiness_def toggle_health_def toggle_ready_def Let_def split: sum.split)

lemma startup_started:
  "APP_START_TIME g + 2 \<le> now \<Longrightarrow> startup g now = HTMLResponse Startup_page"
  by (simp add: startup_def Let_def)

lemma serve_startup:
  "APP_START_TIME g + 2 \<le> t0 \<Longrightarrow> \<forall>ev \<in> set evs. t0 \<le> fst ev \<Longrightarrow> i < length evs \<Longrightarrow>
     snd (evs ! i) = Get_startup \<Longrightarrow> fst (serve g evs) ! i = HTMLResponse Startup_page"
proof (induction evs arbitrary: g i)
  case Nil
  then show ?case by simp
next
  case (Cons ev evs)
  obtain now r where ev: "ev = (now, r)" by (cases ev)
  show ?case
  proof (cases i)
    case 0
    with Cons.prems ev have "r = Get_startup" "APP_START_TIME g + 2 \<le> now" by auto
    with 0 ev show ?thesis
      by (simp add: split_def Let_def startup_started)
  next
    case (Suc j)
    have "APP_START_TIME (snd (handle g now r)) + 2 \<le> t0"
      using Cons.prems(1) by (simp add: handle_APP_START_TIME)
    moreover have "\<forall>ev \<in> set evs. t0 \<le> fst ev" "j < length evs" "snd (evs ! j) = Get_startup"
      using Cons.prems Suc by auto
    ultimately have "fst (serve (snd (handle g now r)) evs) ! j = HTMLResponse Startup_page"
      by (rule Cons.IH)
    with Suc ev show ?thesis
      by (simp add: split_def Let_def)
  qed
qed

text \<open>
  C5. A request to \<^verbatim>\<open>/startup\<close> made 2 seconds or more after the process start is
  answered 200 (STARTED), in whatever state the flags are; and in every continuation
  \<open>evs\<close> of the run whose clock readings do not decrease (probes, toggles, landing and
  info pages, in any order), every later \<^verbatim>\<open>/startup\<close> request is answered 200 with the
  STARTED page, never 503.
\<close>

theorem startup_stays_started:
  assumes "APP_START_TIME g + 2 \<le> t0" and "sorted (t0 # map fst evs)"
  shows "status_code (startup g t0) = 200
    \<and> (\<forall>i < length evs. snd (evs ! i) = Get_startup \<longrightarrow>
          status_code (fst (serve g evs) ! i) = 200
          \<and> content (fst (serve g evs) ! i) = Startup_page)"
proof -
  from assms(2) have "\<forall>ev \<in> set evs. t0 \<le> fst ev" by auto
  with assms(1) show ?thesis
    by (simp add: startup_started serve_startup HTMLResponse_def)
qed

theorem startup_stays_started_witness:
  "status_code (startup (fresh_instance 0 5) 2) = 200
   \<and> map status_code
       (fst (serve (fresh_instance 0 5)
          [(2, Get_toggle_health), (3, Get_startup), (3, Get_toggle_ready), (4, Get_ready),
           (7, Get_ready), (8, Get_startup)])) = [200, 200, 200, 503, 200, 200]"
  using startup_stays_started [of "fresh_instance 0 5" 2
        "[(2, Get_toggle_health), (3, Get_startup), (3, Get_toggle_ready), (4, Get_ready),
          (7, Get_ready), (8, Get_startup)]"]
  by (simp add: fresh_instance_def startup_def readiness_def toggle_health_def toggle_ready_def
      HTMLResponse_def Let_def float_of_int_exact)

section \<open>Peer discovery\<close>

subsection \<open>Strategy B: name resolution\<close>

lemma dns_loop_first_seen:
  "dns_loop my_ip results seen peers =
     peers @ map (dns_peer my_ip) (first_seen (map sockaddr_address results) seen)"
proof (induction results arbitrary: seen peers)
  case Nil
  show ?case by simp
next
  case (Cons r results)
  obtain f t p c a port where r: "r = (f, t, p, c, (a, port))"
    by (metis prod.exhaust)
  show ?case
    by (simp add: r Cons.IH sockaddr_address_def)
qed

lemma set_first_seen: "set (first_seen as seen) = set as - seen"
  by (induction as seen rule: first_seen.induct) auto

lemma distinct_first_seen: "distinct (first_seen as seen)"
  by (induction as seen rule: first_seen.induct) (auto simp: set_first_seen)

lemma insort_key_map:
  "insort_key k (f x) (map f ys) = map f (insort_key (\<lambda>y. k (f y)) x ys)"
  by (induction ys) simp_all

lemma sort_key_map: "sort_key k (map f xs) = map f (sort_key (\<lambda>y. k (f y)) xs)"
  by (induction xs) (simp_all add: insort_key_map)

lemma sort_distinct_set: "distinct xs \<Longrightarrow> sort xs = sorted_list_of_set (set xs)"
  by (simp add: sorted_list_of_set_sort_remdups distinct_remdups_id)

lemma ip_dns_peer: "ip (dns_peer my_ip a) = a"
  by (simp add: dns_peer_def)

lemma dns_sorted:
  "sort_key ip (dns_loop my_ip results {} []) =
     map (dns_peer my_ip) (sort (remdups (map sockaddr_address results)))"
proof -
  let ?as = "map sockaddr_address results"
  have "sort_key ip (dns_loop my_ip results {} []) =
          map (dns_peer my_ip) (sort (first_seen ?as {}))"
    by (simp add: dns_loop_first_seen sort_key_map ip_dns_peer)
  also have "sort (first_seen ?as {}) = sorted_list_of_set (set ?as)"
    using sort_distinct_set [OF distinct_first_seen, of ?as "{}"]
    by (simp add: set_first_seen)
  also have "\<dots> = sort (remdups ?as)"
    by (rule sorted_list_of_set_sort_remdups)
  finally show ?thesis .
qed

lemma dns_gaierror:
  "dns_my_ip w = Inr my_ip \<Longrightarrow>
   getaddrinfo w (HEADLESS_SVC g @ ''.'' @ NAMESPACE g @ ''.svc.cluster.local'') = Inl Gaierror \<Longrightarrow>
   discover_via_dns g w = Inr []"
  by (simp add: discover_via_dns_def)

text \<open>
  C7. When the local address lookup gives \<open>my_ip\<close> and the resolution of
  \<^verbatim>\<open><HEADLESS_SVC>.<NAMESPACE>.svc.cluster.local\<close> returns \<open>results\<close>, Strategy B returns one
  record for each address of \<open>results\<close>, without duplicates, in ascending lexicographic
  order of the address; the record of address \<open>a\<close> has name \<open>a\<close>, the placeholder for an
  unknown node, phase Running, ready true, 0 restarts, and is marked as self exactly when
  \<open>a\<close> is \<open>my_ip\<close>. (The answers 10.0.0.5, 10.0.0.2, 10.0.0.2 give 10.0.0.2, 10.0.0.5.)
\<close>

theorem discover_via_dns_sorted_dedup:
  assumes "dns_my_ip w = Inr my_ip"
    and "getaddrinfo w (HEADLESS_SVC g @ ''.'' @ NAMESPACE g @ ''.svc.cluster.local'')
           = Inr results"
  shows "discover_via_dns g w =
      Inr (map (\<lambda>a. \<lparr> name = a, ip = a, node = em_dash, phase = Some ''Running'',
                       ready = True, restarts = 0, is_self = (a = my_ip) \<rparr>)
             (sort (remdups (map sockaddr_address results))))
    \<and> sorted (sort (remdups (map sockaddr_address results)))
    \<and> distinct (sort (remdups (map sockaddr_address results)))
    \<and> set (sort (remdups (map sockaddr_address results))) = set (map sockaddr_address results)"
proof -
  have "dns_peer my_ip =
      (\<lambda>a. \<lparr> name = a, ip = a, node = em_dash, phase = Some ''Running'',
              ready = True, restarts = 0, is_self = (a = my_ip) \<rparr>)"
    by (rule ext) (simp add: dns_peer_def)
  then show ?thesis
    using assms by (simp add: discover_via_dns_def dns_sorted del: set_map)
qed

theorem discover_via_dns_sorted_dedup_witness:
  "discover_via_dns (fresh_instance 0 5)
     (example_world (Inl ApiException) (Inr example_addresses) True) =
     Inr [\<lparr> name = ''10.0.0.2'', ip = ''10.0.0.2'', node = em_dash, phase = Some ''Running'',
            ready = True, restarts = 0, is_self = True \<rparr>,
          \<lparr> name = ''10.0.0.5'', ip = ''10.0.0.5'', node = em_dash, phase = Some ''Running'',
            ready = True, restarts = 0, is_self = False \<rparr>]"
  using discover_via_dns_sorted_dedup
    [of "example_world (Inl ApiException) (Inr example_addresses) True" "''10.0.0.2''"
      "fresh_instance 0 5" example_addresses]
  by (simp add: example_world_def example_addresses_def sockaddr_address_def)

subsection \<open>Strategy A: the Kubernetes API\<close>

lemma pod_ready_iff:
  "pod_ready p =
     (\<exists>conds. status_conditions p = Some conds
        \<and> (\<exists>c \<in> set conds. cond_type c = ''Ready'' \<and> cond_status c = ''True''))"
proof -
  have f: "fold (\<lambda>cond r. if cond_type cond = ''Ready'' \<and> cond_status cond = ''True''
                            then True else r) conds b
           = (b \<or> (\<exists>c \<in> set conds. cond_type c = ''Ready'' \<and> cond_status c = ''True''))"
    for conds b
    by (induction conds arbitrary: b) auto
  show ?thesis
    by (cases "status_conditions p") (auto simp: pod_ready_def f)
qed

lemma k8s_peer_fields:
  "name (k8s_peer my_ip p) = metadata_name p
   \<and> ip (k8s_peer my_ip p) = str_or (status_pod_ip p) ''pending''
   \<and> node (k8s_peer my_ip p) = str_or (spec_node_name p) ''unknown''
   \<and> phase (k8s_peer my_ip p) = status_phase p
   \<and> ready (k8s_peer my_ip p) = pod_ready p
   \<and> restarts (k8s_peer my_ip p) =
       (case status_container_statuses p of None \<Rightarrow> 0
        | Some cs \<Rightarrow> sum_list (map restart_count cs))
   \<and> is_self (k8s_peer my_ip p) = (ip (k8s_peer my_ip p) = my_ip)"
  by (simp add: k8s_peer_def Let_def list_or_def split: option.split)

lemma k8s_success:
  "K8S_AVAILABLE g \<Longrightarrow> list_namespaced_pod w (NAMESPACE g) ''app=demo'' = Inr pods \<Longrightarrow>
   k8s_my_ip w = Inr my_ip \<Longrightarrow>
   discover_via_k8s_api g w = map (k8s_peer my_ip) (sort_key metadata_name pods)"
  by (simp add: discover_via_k8s_api_def sort_key_map k8s_peer_fields)

lemma k8s_failure:
  "\<not> K8S_AVAILABLE g \<or> isl (list_namespaced_pod w (NAMESPACE g) ''app=demo'')
     \<or> isl (k8s_my_ip w) \<Longrightarrow> discover_via_k8s_api g w = []"
  by (auto simp: discover_via_k8s_api_def split: sum.split)

text \<open>
  C8. When the Kubernetes client is available, the API call returns \<open>pods\<close> and the local
  address lookup gives \<open>my_ip\<close>, Strategy A's result is sorted ascending by name, and it
  is, record by record, the list of the pods in that (stable) order: each record has its
  pod's name, is ready exactly when the pod's condition list has an entry of type
  "Ready" with status "True", counts the sum of the restart counts of the pod's
  containers, and is marked as self exactly when its address is \<open>my_ip\<close>.
\<close>

theorem discover_via_k8s_api_records:
  assumes "K8S_AVAILABLE g"
    and "list_namespaced_pod w (NAMESPACE g) ''app=demo'' = Inr pods"
    and "k8s_my_ip w = Inr my_ip"
  shows "sorted (map name (discover_via_k8s_api g w))
    \<and> list_all2
        (\<lambda>p r. name r = metadata_name p
           \<and> ready r =
               (\<exists>conds. status_conditions p = Some conds
                  \<and> (\<exists>c \<in> set conds. cond_type c = ''Ready'' \<and> cond_status c = ''True''))
           \<and> restarts r =
               (case status_container_statuses p of None \<Rightarrow> 0
                | Some cs \<Rightarrow> sum_list (map restart_count cs))
           \<and> is_self r = (ip r = my_ip))
        (sort_key metadata_name pods) (discover_via_k8s_api g w)"
proof -
  have d: "discover_via_k8s_api g w = map (k8s_peer my_ip) (sort_key metadata_name pods)"
    using assms by (rule k8s_success)
  have "map name (discover_via_k8s_api g w) = map metadata_name (sort_key metadata_name pods)"
    by (simp add: d k8s_peer_fields)
  then have s: "sorted (map name (discover_via_k8s_api g w))"
    by simp
  show ?thesis
    using s by (simp add: d list_all2_map2 list_all2_same k8s_peer_fields pod_ready_iff)
qed

lemma example_k8s_peers:
  "discover_via_k8s_api in_cluster (example_world (Inr example_pods) dns in_time) =
     [\<lparr> name = ''pod-a'', ip = ''pending'', node = ''unknown'', phase = Some ''Pending'',
        ready = False, restarts = 0, is_self = False \<rparr>,
      \<lparr> name = ''pod-b'', ip = ''10.0.0.2'', node = ''node-1'', phase = Some ''Running'',
        ready = True, restarts = 3, is_self = True \<rparr>]"
  by (simp add: in_cluster_def fresh_instance_def example_world_def example_pods_def
      discover_via_k8s_api_def k8s_peer_def pod_ready_def str_or_def list_or_def)

theorem discover_via_k8s_api_records_witness:
  "K8S_AVAILABLE in_cluster
   \<and> sorted (map name
        (discover_via_k8s_api in_cluster (example_world (Inr example_pods) (Inl Gaierror) True)))
   \<and> map (\<lambda>r. (name r, ready r, restarts r, is_self r))
        (discover_via_k8s_api in_cluster (example_world (Inr example_pods) (Inl Gaierror) True))
      = [(''pod-a'', False, 0, False), (''pod-b'', True, 3, True)]"
  using discover_via_k8s_api_records
    [of in_cluster "example_world (Inr example_pods) (Inl Gaierror) True" example_pods
      "''10.0.0.2''"]
  by (simp add: example_k8s_peers) (simp add: in_cluster_def example_world_def)

subsection \<open>Composition\<close>

text \<open>
  C4. The composed call \<^verbatim>\<open>_fetch_peer_pods\<close> returns exactly Strategy A's sequence when
  that sequence is not empty, and otherwise exactly the outcome of Strategy B; the
  result is the whole of one or the whole of the other.
\<close>

theorem fetch_peer_pods_composition:
  "fetch_peer_pods g w =
     (if discover_via_k8s_api g w \<noteq> [] then Inr (discover_via_k8s_api g w)
      else discover_via_dns g w)"
  by (simp add: fetch_peer_pods_def Let_def)

theorem fetch_peer_pods_composition_witness:
  "fetch_peer_pods in_cluster (example_world (Inr example_pods) (Inr example_addresses) True) =
     Inr [\<lparr> name = ''pod-a'', ip = ''pending'', node = ''unknown'', phase = Some ''Pending'',
            ready = False, restarts = 0, is_self = False \<rparr>,
          \<lparr> name = ''pod-b'', ip = ''10.0.0.2'', node = ''node-1'', phase = Some ''Running'',
            ready = True, restarts = 3, is_self = True \<rparr>]
   \<and> fetch_peer_pods in_cluster (example_world (Inr []) (Inr example_addresses) True) =
     Inr [dns_peer ''10.0.0.2'' ''10.0.0.2'', dns_peer ''10.0.0.2'' ''10.0.0.5'']"
proof -
  have a: "discover_via_k8s_api in_cluster
      (example_world (Inr []) (Inr example_addresses) True) = []"
    by (simp add: in_cluster_def fresh_instance_def example_world_def discover_via_k8s_api_def)
  have b: "discover_via_dns in_cluster (example_world (Inr []) (Inr example_addresses) True) =
      Inr [dns_peer ''10.0.0.2'' ''10.0.0.2'', dns_peer ''10.0.0.2'' ''10.0.0.5'']"
    by (simp add: example_world_def example_addresses_def discover_via_dns_def ip_dns_peer)
  show ?thesis
    using fetch_peer_pods_composition
      [of in_cluster "example_world (Inr example_pods) (Inr example_addresses) True"]
      fetch_peer_pods_composition
      [of in_cluster "example_world (Inr []) (Inr example_addresses) True"]
    by (simp add: example_k8s_peers a b)
qed

subsection \<open>Failures of discovery\<close>

lemma get_peer_pods_total: "\<exists>peers. get_peer_pods g w = Inr peers"
  by (simp add: get_peer_pods_def split: sum.split)

lemma get_peer_pods_timeout: "\<not> fetch_in_time w \<Longrightarrow> get_peer_pods g w = Inr []"
  by (simp add: get_peer_pods_def wait_for_def)

lemma env_rows_loop_rows:
  "set keys \<subseteq> dom env \<Longrightarrow>
   \<exists>rows. env_rows_loop upper env keys acc = Inr (acc @ rows)
     \<and> list_all2 (\<lambda>key row. if secret_like upper key then row = Masked_row key
                    else \<exists>v. env key = Some v \<and> row = Value_row key (take 100 v)) keys rows"
proof (induction keys arbitrary: acc)
  case Nil
  show ?case by simp
next
  case (Cons key keys)
  from Cons.prems obtain v where v: "env key = Some v" by auto
  from Cons.prems have k: "set keys \<subseteq> dom env" by simp
  let ?row = "if secret_like upper key then Masked_row key else Value_row key (take 100 v)"
  from Cons.IH [OF k, of "acc @ [?row]"] obtain rows where
    r: "env_rows_loop upper env keys (acc @ [?row]) = Inr ((acc @ [?row]) @ rows)"
    and a: "list_all2 (\<lambda>key row. if secret_like upper key then row = Masked_row key
                    else \<exists>v. env key = Some v \<and> row = Value_row key (take 100 v)) keys rows"
    by blast
  have "env_rows_loop upper env (key # keys) acc = Inr (acc @ (?row # rows))"
    using r v by (simp split: if_splits)
  moreover have "list_all2 (\<lambda>key row. if secret_like upper key then row = Masked_row key
                    else \<exists>v. env key = Some v \<and> row = Value_row key (take 100 v))
                  (key # keys) (?row # rows)"
    using a v by simp
  ultimately show ?case by blast
qed

lemma info_env_rows_rows:
  "\<exists>rows. info_env_rows upper items = Inr rows
     \<and> list_all2 (\<lambda>key row. if secret_like upper key then row = Masked_row key
                    else \<exists>v. map_of items key = Some v \<and> row = Value_row key (take 100 v))
         (sort (remdups (map fst items))) rows"
proof -
  have "set (sort (remdups (map fst items))) \<subseteq> dom (map_of items)"
    by (simp add: dom_map_of_conv_image_fst)
  from env_rows_loop_rows [OF this, of upper "[]"] show ?thesis
    by (simp add: info_env_rows_def)
qed

lemma index_ok:
  "gethostname w = Inr h \<Longrightarrow> page_my_ip w = Inr a \<Longrightarrow>
     status_code (respond (index g w now)) = 200"
  using get_peer_pods_total [of g w]
  by (auto simp: index_def respond_def HTMLResponse_def Let_def)

lemma info_ok:
  "gethostname w = Inr h \<Longrightarrow> page_my_ip w = Inr a \<Longrightarrow>
     status_code (respond (info g w now)) = 200"
  using get_peer_pods_total [of g w] info_env_rows_rows [of "str_upper w" "environ w"]
  by (auto simp: info_def respond_def HTMLResponse_def Let_def)

text \<open>
  C9, as the claim states it, fails: when Strategy A raises (here the API call is
  refused) and the name resolution answers, the composed discovery call returns
  Strategy B's records, not the empty sequence.
\<close>

theorem get_peer_pods_after_api_error_counterexample:
  "list_namespaced_pod (example_world (Inl ApiException) (Inr example_addresses) True)
     (NAMESPACE in_cluster) ''app=demo'' = Inl ApiException
   \<and> get_peer_pods in_cluster (example_world (Inl ApiException) (Inr example_addresses) True) =
       Inr [\<lparr> name = ''10.0.0.2'', ip = ''10.0.0.2'', node = em_dash,
              phase = Some ''Running'', ready = True, restarts = 0, is_self = True \<rparr>,
            \<lparr> name = ''10.0.0.5'', ip = ''10.0.0.5'', node = em_dash,
              phase = Some ''Running'', ready = True, restarts = 0, is_self = False \<rparr>]
   \<and> get_peer_pods in_cluster (example_world (Inl ApiException) (Inr example_addresses) True)
       \<noteq> Inr []"
  by (simp add: example_world_def example_addresses_def in_cluster_def fresh_instance_def
      get_peer_pods_def wait_for_def fetch_peer_pods_def discover_via_k8s_api_def
      discover_via_dns_def dns_peer_def)

text \<open>
  C9, amended. Peer discovery raises no error to the HTTP caller: \<^verbatim>\<open>get_peer_pods\<close> always
  returns a sequence. An error of Strategy A (client not available, the API call or the
  local address lookup raising) makes Strategy A yield the empty sequence, and the
  composed call then gives the outcome of Strategy B, which may be a non-empty
  sequence. A name resolution failure makes Strategy B yield the empty sequence. The
  composed discovery call returns the empty sequence when Strategy A yields nothing and
  Strategy B yields nothing or raises, and on overall timeout. \<^verbatim>\<open>/\<close> and \<^verbatim>\<open>/info\<close> answer
  200 under all of these conditions, whenever the hostname and address lookups of the
  page itself succeed.
\<close>

theorem get_peer_pods_swallows_failures:
  "(\<exists>peers. get_peer_pods g w = Inr peers)
   \<and> (\<not> K8S_AVAILABLE g \<or> isl (list_namespaced_pod w (NAMESPACE g) ''app=demo'')
        \<or> isl (k8s_my_ip w) \<longrightarrow>
        discover_via_k8s_api g w = [] \<and> fetch_peer_pods g w = discover_via_dns g w)
   \<and> (dns_my_ip w = Inr my_ip
        \<and> getaddrinfo w (HEADLESS_SVC g @ ''.'' @ NAMESPACE g @ ''.svc.cluster.local'')
            = Inl Gaierror \<longrightarrow>
        discover_via_dns g w = Inr [])
   \<and> (discover_via_k8s_api g w = []
        \<and> (discover_via_dns g w = Inr [] \<or> isl (discover_via_dns g w)) \<longrightarrow>
        get_peer_pods g w = Inr [])
   \<and> (\<not> fetch_in_time w \<longrightarrow> get_peer_pods g w = Inr [])
   \<and> (gethostname w = Inr h \<and> page_my_ip w = Inr a \<longrightarrow>
        status_code (respond (index g w now)) = 200
        \<and> status_code (respond (info g w now)) = 200)"
proof -
  have 1: "\<exists>peers. get_peer_pods g w = Inr peers"
    by (rule get_peer_pods_total)
  have 2: "\<not> K8S_AVAILABLE g \<or> isl (list_namespaced_pod w (NAMESPACE g) ''app=demo'')
        \<or> isl (k8s_my_ip w) \<longrightarrow>
        discover_via_k8s_api g w = [] \<and> fetch_peer_pods g w = discover_via_dns g w"
    using k8s_failure [of g w] by (auto simp: fetch_peer_pods_def)
  have 3: "dns_my_ip w = Inr my_ip
        \<and> getaddrinfo w (HEADLESS_SVC g @ ''.'' @ NAMESPACE g @ ''.svc.cluster.local'')
            = Inl Gaierror \<longrightarrow>
        discover_via_dns g w = Inr []"
    by (simp add: dns_gaierror)
  have 4: "discover_via_k8s_api g w = []
        \<and> (discover_via_dns g w = Inr [] \<or> isl (discover_via_dns g w)) \<longrightarrow>
        get_peer_pods g w = Inr []"
    by (auto simp: get_peer_pods_def fetch_peer_pods_def wait_for_def split: sum.splits)
  have 5: "\<not> fetch_in_time w \<longrightarrow> get_peer_pods g w = Inr []"
    by (simp add: get_peer_pods_timeout)
  have 6: "gethostname w = Inr h \<and> page_my_ip w = Inr a \<longrightarrow>
        status_code (respond (index g w now)) = 200
        \<and> status_code (respond (info g w now)) = 200"
    by (simp add: index_ok info_ok)
  from 1 2 3 4 5 6 show ?thesis by blast
qed

theorem get_peer_pods_swallows_failures_witness:
  "isl (list_namespaced_pod (example_world (Inl ApiException) (Inl Gaierror) True)
          (NAMESPACE in_cluster) ''app=demo'')
   \<and> get_peer_pods in_cluster (example_world (Inl ApiException) (Inl Gaierror) True) = Inr []
   \<and> get_peer_pods in_cluster (example_world (Inr example_pods) (Inr example_addresses) False)
       = Inr []
   \<and> status_code (respond
        (index in_cluster (example_world (Inl ApiException) (Inl Gaierror) True) 10)) = 200
   \<and> status_code (respond
        (info in_cluster (example_world (Inr example_pods) (Inr example_addresses) False) 10))
       = 200"
  using get_peer_pods_swallows_failures
      [of in_cluster "example_world (Inl ApiException) (Inl Gaierror) True"
        "''10.0.0.2''" "''pod-b''" "''10.0.0.2''" 10]
    get_peer_pods_swallows_failures
      [of in_cluster "example_world (Inr example_pods) (Inr example_addresses) False"
        "''10.0.0.2''" "''pod-b''" "''10.0.0.2''" 10]
  by (simp add: example_world_def)

text \<open>
  The lookups of the page itself are outside every handler of exceptions: when
  \<^verbatim>\<open>socket.gethostbyname(socket.gethostname())\<close> raises in the template of the landing
  page, the request is answered 500 although discovery returned normally.
\<close>

lemma index_500_when_page_lookup_raises:
  "page_my_ip w = Inl e \<Longrightarrow> status_code (respond (index g w now)) = 500"
  using get_peer_pods_total [of g w]
  by (auto simp: index_def respond_def Let_def split: sum.split)

section \<open>The environment dump of \<^verbatim>\<open>/info\<close>\<close>

lemma env_rows_loop_cong:
  "(\<forall>key. \<not> secret_like upper key \<longrightarrow> env' key = env key) \<Longrightarrow>
     env_rows_loop upper env' keys acc = env_rows_loop upper env keys acc"
  by (induction keys arbitrary: acc) (simp_all split: option.split)

lemma info_env_rows_cong:
  assumes "set (map fst items') = set (map fst items)"
    and "\<forall>key. \<not> secret_like upper key \<longrightarrow> map_of items' key = map_of items key"
  shows "info_env_rows upper items' = info_env_rows upper items"
proof -
  have "sort (remdups (map fst items')) = sort (remdups (map fst items))"
    using assms(1) by (metis sorted_list_of_set_sort_remdups)
  then show ?thesis
    using env_rows_loop_cong [OF assms(2)] by (simp add: info_env_rows_def)
qed

lemma list_all2_setD2: "list_all2 P xs ys \<Longrightarrow> y \<in> set ys \<Longrightarrow> \<exists>x \<in> set xs. P x y"
  by (induction rule: list_all2_induct) auto

lemma get_peer_pods_environ: "get_peer_pods g (w\<lparr> environ := e \<rparr>) = get_peer_pods g w"
proof -
  have "discover_via_k8s_api g (w\<lparr> environ := e \<rparr>) = discover_via_k8s_api g w"
    by (simp add: discover_via_k8s_api_def split: sum.split)
  moreover have "discover_via_dns g (w\<lparr> environ := e \<rparr>) = discover_via_dns g w"
    by (simp add: discover_via_dns_def split: sum.split)
  ultimately show ?thesis
    by (simp add: get_peer_pods_def fetch_peer_pods_def Let_def)
qed

subsection \<open>Secret-like names in ASCII\<close>

lemma sublist_map_iff: "sublist w (map f xs) \<longleftrightarrow> (\<exists>u. sublist u xs \<and> map f u = w)"
proof
  assume "sublist w (map f xs)"
  then obtain ps ss where "map f xs = ps @ w @ ss"
    by (auto simp: sublist_def)
  then obtain us rest where 1: "xs = us @ rest" and 2: "map f rest = w @ ss"
    by (metis map_eq_append_conv)
  from 2 obtain vs ts where "rest = vs @ ts" and "map f vs = w"
    by (metis map_eq_append_conv)
  with 1 have "xs = us @ vs @ ts" and "map f vs = w" by simp_all
  then show "\<exists>u. sublist u xs \<and> map f u = w"
    by (auto simp: sublist_def)
next
  assume "\<exists>u. sublist u xs \<and> map f u = w"
  then show "sublist w (map f xs)"
    by (auto intro: map_mono_sublist)
qed

lemma ascii_upper_char_eq:
  assumes "65 \<le> l" and "l \<le> 90"
  shows "ascii_upper_char c = l \<longleftrightarrow> same_letter c l"
  using assms by (auto simp: ascii_upper_char_def same_letter_def)

lemma map_ascii_upper_char_eq:
  assumes "\<forall>l \<in> set word. 65 \<le> l \<and> l \<le> 90"
  shows "map ascii_upper_char u = word \<longleftrightarrow> list_all2 same_letter u word"
  using assms
proof (induction u arbitrary: word)
  case Nil
  show ?case by auto
next
  case (Cons c u)
  show ?case
  proof (cases word)
    case Nil
    then show ?thesis by simp
  next
    case (Cons l word')
    with Cons.prems Cons.IH [of word'] show ?thesis
      by (simp add: ascii_upper_char_eq)
  qed
qed

lemma ascii_sublist: "ascii key \<Longrightarrow> sublist u key \<Longrightarrow> ascii u"
  by (auto simp: ascii_def sublist_def)

lemma secret_like_ascii_upper_iff: "secret_like ascii_upper key \<longleftrightarrow> contains_secret_word key"
proof -
  have w: "sublist word (ascii_upper key) \<longleftrightarrow> (\<exists>u. sublist u key \<and> list_all2 same_letter u word)"
    if "\<forall>l \<in> set word. 65 \<le> l \<and> l \<le> 90" for word
    using map_ascii_upper_char_eq [OF that] by (simp add: ascii_upper_def sublist_map_iff)
  show ?thesis
    by (simp add: secret_like_def contains_secret_word_def w str_def)
qed

lemma secret_like_on_ascii:
  "upper_on_ascii upper \<Longrightarrow> ascii key \<Longrightarrow> secret_like upper key = secret_like ascii_upper key"
  by (simp add: secret_like_def upper_on_ascii_def)

lemma secret_like_examples:
  "secret_like ascii_upper (str ''my_secret'')" "secret_like ascii_upper (str ''DbPassword'')"
  "secret_like ascii_upper (str ''auth_token_2'')" "secret_like ascii_upper (str ''API_KEY'')"
  "secret_like ascii_upper (str ''monkey'')"
  "\<not> secret_like ascii_upper (str ''HOME'')" "\<not> secret_like ascii_upper (str ''PATH'')"
  "\<not> secret_like ascii_upper (str ''SECRE_T'')" "\<not> secret_like ascii_upper (str ''PASS_WORD'')"
  "\<not> secret_like ascii_upper (str ''TOKE'')" "\<not> secret_like ascii_upper (str ''K_EY'')"
  by code_simp+

lemma ascii_examples:
  "ascii (str ''my_secret'')" "ascii (str ''DbPassword'')" "ascii (str ''auth_token_2'')" "ascii (str ''API_KEY'')"
  "ascii (str ''monkey'')" "ascii (str ''HOME'')" "ascii (str ''PATH'')" "ascii (str ''SECRE_T'')"
  "ascii (str ''PASS_WORD'')" "ascii (str ''TOKE'')" "ascii (str ''K_EY'')"
  by code_simp+

text \<open>
  C10. For every environment and whatever \<^verbatim>\<open>str.upper()\<close> does outside ASCII, the dump
  of \<^verbatim>\<open>/info\<close> has one row for each variable, in the order of the sorted names. The row
  of a variable whose upper-cased name contains SECRET, PASSWORD, TOKEN or KEY is the
  masked row, which holds the name only; the row of any other variable shows the first
  100 characters of its value, so at most 100. Two environments with the same variable
  names that agree on the values of all variables that are not secret-like give the
  same rows and the same \<^verbatim>\<open>/info\<close> response: the response does not depend on the masked
  values. An ASCII name is secret-like exactly when a part of it spells one of the four
  words in capital or small letters: \<open>my_secret\<close>, \<open>DbPassword\<close>, \<open>auth_token_2\<close>,
  \<open>API_KEY\<close> and \<open>monkey\<close> are, \<open>HOME\<close>, \<open>PATH\<close>, \<open>SECRE_T\<close>, \<open>PASS_WORD\<close>, \<open>TOKE\<close> and
  \<open>K_EY\<close> are not.
\<close>

theorem info_masks_secrets:
  "(\<exists>rows. info_env_rows (str_upper w) items = Inr rows
      \<and> list_all2
          (\<lambda>key row. if secret_like (str_upper w) key then row = Masked_row key
             else \<exists>v. map_of items key = Some v \<and> row = Value_row key (take 100 v))
          (sort (remdups (map fst items))) rows
      \<and> (\<forall>key v. Value_row key v \<in> set rows \<longrightarrow>
            length v \<le> 100 \<and> \<not> secret_like (str_upper w) key)
      \<and> (\<forall>key. Masked_row key \<in> set rows \<longrightarrow> secret_like (str_upper w) key))
   \<and> (set (map fst items') = set (map fst items)
        \<and> (\<forall>key. \<not> secret_like (str_upper w) key \<longrightarrow> map_of items' key = map_of items key)
        \<longrightarrow>
        info_env_rows (str_upper w) items' = info_env_rows (str_upper w) items
        \<and> info g (w\<lparr> environ := items' \<rparr>) now = info g (w\<lparr> environ := items \<rparr>) now)
   \<and> (upper_on_ascii (str_upper w) \<and> ascii key \<longrightarrow>
        secret_like (str_upper w) key = contains_secret_word key)
   \<and> (upper_on_ascii (str_upper w) \<longrightarrow>
        secret_like (str_upper w) (str ''my_secret'') \<and> secret_like (str_upper w) (str ''DbPassword'')
        \<and> secret_like (str_upper w) (str ''auth_token_2'') \<and> secret_like (str_upper w) (str ''API_KEY'')
        \<and> secret_like (str_upper w) (str ''monkey'')
        \<and> \<not> secret_like (str_upper w) (str ''HOME'') \<and> \<not> secret_like (str_upper w) (str ''PATH'')
        \<and> \<not> secret_like (str_upper w) (str ''SECRE_T'') \<and> \<not> secret_like (str_upper w) (str ''PASS_WORD'')
        \<and> \<not> secret_like (str_upper w) (str ''TOKE'') \<and> \<not> secret_like (str_upper w) (str ''K_EY''))"
proof -
  let ?up = "str_upper w"
  let ?P = "\<lambda>key row. if secret_like ?up key then row = Masked_row key
                     else \<exists>v. map_of items key = Some v \<and> row = Value_row key (take 100 v)"
  obtain rows where r: "info_env_rows ?up items = Inr rows"
    and l: "list_all2 ?P (sort (remdups (map fst items))) rows"
    using info_env_rows_rows [of ?up items] by blast
  have v: "length v \<le> 100 \<and> \<not> secret_like ?up key" if "Value_row key v \<in> set rows" for key v
  proof -
    from list_all2_setD2 [OF l that] obtain k where "?P k (Value_row key v)" by blast
    then show ?thesis by (auto split: if_splits)
  qed
  have m: "secret_like ?up key" if "Masked_row key \<in> set rows" for key
  proof -
    from list_all2_setD2 [OF l that] obtain k where "?P k (Masked_row key)" by blast
    then show ?thesis by (auto split: if_splits)
  qed
  have a: "\<exists>rows. info_env_rows ?up items = Inr rows
      \<and> list_all2 ?P (sort (remdups (map fst items))) rows
      \<and> (\<forall>key v. Value_row key v \<in> set rows \<longrightarrow> length v \<le> 100 \<and> \<not> secret_like ?up key)
      \<and> (\<forall>key. Masked_row key \<in> set rows \<longrightarrow> secret_like ?up key)"
    using r l v m by blast
  have b: "info g (w\<lparr> environ := items' \<rparr>) now = info g (w\<lparr> environ := items \<rparr>) now"
    if "info_env_rows ?up items' = info_env_rows ?up items"
    using that by (simp add: info_def get_peer_pods_environ Let_def split: sum.split)
  have c: "set (map fst items') = set (map fst items)
        \<and> (\<forall>key. \<not> secret_like ?up key \<longrightarrow> map_of items' key = map_of items key)
        \<longrightarrow>
        info_env_rows ?up items' = info_env_rows ?up items
        \<and> info g (w\<lparr> environ := items' \<rparr>) now = info g (w\<lparr> environ := items \<rparr>) now"
    using b info_env_rows_cong [of items' items ?up] by blast
  have d: "upper_on_ascii ?up \<and> ascii key \<longrightarrow> secret_like ?up key = contains_secret_word key"
    by (simp add: secret_like_on_ascii secret_like_ascii_upper_iff)
  have e: "upper_on_ascii ?up \<longrightarrow>
        secret_like ?up (str ''my_secret'') \<and> secret_like ?up (str ''DbPassword'')
        \<and> secret_like ?up (str ''auth_token_2'') \<and> secret_like ?up (str ''API_KEY'')
        \<and> secret_like ?up (str ''monkey'')
        \<and> \<not> secret_like ?up (str ''HOME'') \<and> \<not> secret_like ?up (str ''PATH'')
        \<and> \<not> secret_like ?up (str ''SECRE_T'') \<and> \<not> secret_like ?up (str ''PASS_WORD'')
        \<and> \<not> secret_like ?up (str ''TOKE'') \<and> \<not> secret_like ?up (str ''K_EY'')"
    by (simp add: secret_like_on_ascii ascii_examples secret_like_examples)
  from a c d e show ?thesis by blast
qed

lemma upper_on_ascii_ascii_upper: "upper_on_ascii ascii_upper"
  by (simp add: upper_on_ascii_def)

lemma example_env_rows:
  "info_env_rows ascii_upper [(str ''HOME'', str ''/root''), (str ''API_KEY'', str ''s3cr3t'')] =
     Inr [Masked_row (str ''API_KEY''), Value_row (str ''HOME'') (str ''/root'')]"
  "info_env_rows ascii_upper [(str ''HOME'', str ''/root''), (str ''API_KEY'', str ''hunter2'')] =
     Inr [Masked_row (str ''API_KEY''), Value_row (str ''HOME'') (str ''/root'')]"
  by code_simp+

theorem info_masks_secrets_witness:
  "info_env_rows ascii_upper [((str ''HOME''), (str ''/root'')), ((str ''API_KEY''), (str ''s3cr3t''))] =
     Inr [Masked_row (str ''API_KEY''), Value_row (str ''HOME'') (str ''/root'')]
   \<and> info in_cluster
       ((example_world (Inr example_pods) (Inl Gaierror) True)
          \<lparr> environ := [((str ''HOME''), (str ''/root'')), ((str ''API_KEY''), (str ''hunter2''))] \<rparr>) 10 =
     info in_cluster
       ((example_world (Inr example_pods) (Inl Gaierror) True)
          \<lparr> environ := [((str ''HOME''), (str ''/root'')), ((str ''API_KEY''), (str ''s3cr3t''))] \<rparr>) 10
   \<and> secret_like ascii_upper (str ''DbPassword'') = contains_secret_word (str ''DbPassword'')
   \<and> contains_secret_word (str ''DbPassword'')"
proof -
  have u: "str_upper (example_world (Inr example_pods) (Inl Gaierror) True) = ascii_upper"
    by (simp add: example_world_def)
  have h: "\<forall>key. \<not> secret_like ascii_upper key \<longrightarrow>
      map_of [((str ''HOME''), (str ''/root'')), ((str ''API_KEY''), (str ''hunter2''))] key =
      map_of [((str ''HOME''), (str ''/root'')), ((str ''API_KEY''), (str ''s3cr3t''))] key"
    using secret_like_examples(4) by auto
  show ?thesis
    using h info_masks_secrets
      [of "example_world (Inr example_pods) (Inl Gaierror) True"
        "[((str ''HOME''), (str ''/root'')), ((str ''API_KEY''), (str ''s3cr3t''))]"
        "[((str ''HOME''), (str ''/root'')), ((str ''API_KEY''), (str ''hunter2''))]" in_cluster 10 "str ''DbPassword''"]
    by (simp add: u example_env_rows upper_on_ascii_ascii_upper ascii_examples
        secret_like_examples)
qed

text \<open>
  The variables that the module reads into its own state when it is imported
  (\<^verbatim>\<open>HOSTNAME\<close>, \<^verbatim>\<open>POD_NAMESPACE\<close>, \<^verbatim>\<open>NODE_NAME\<close>, \<^verbatim>\<open>APP_VERSION\<close>, \<^verbatim>\<open>STARTUP_DELAY\<close>,
  \<^verbatim>\<open>HEADLESS_SVC\<close>, \<^verbatim>\<open>SERVICE_NAME\<close>) are not secret-like, so no masked value reaches
  a page through the module-level state either.
\<close>

lemma imported_names_not_secret_like:
  "\<not> secret_like ascii_upper (str ''HOSTNAME'') \<and> \<not> secret_like ascii_upper (str ''POD_NAMESPACE'')
   \<and> \<not> secret_like ascii_upper (str ''NODE_NAME'') \<and> \<not> secret_like ascii_upper (str ''APP_VERSION'')
   \<and> \<not> secret_like ascii_upper (str ''STARTUP_DELAY'') \<and> \<not> secret_like ascii_upper (str ''HEADLESS_SVC'')
   \<and> \<not> secret_like ascii_upper (str ''SERVICE_NAME'')"
  by code_simp

end
